theory Spec2Isabelle
  imports Complex_Main "HOL-Library.AList"
begin

section \<open>Python values\<close>

text \<open>
  The values that travel through the configuration pipeline of
  \<^verbatim>\<open>pvder/DER_components.py\<close>: keyword arguments, entries of the JSON
  configuration and the defaults of \<^verbatim>\<open>specifications.DER_argument_spec\<close>.
  A Python \<^verbatim>\<open>dict\<close> with string keys is an association list in insertion
  order (each key once); \<^verbatim>\<open>d[k]\<close> is \<open>map_of d k\<close> with the
  \<^verbatim>\<open>KeyError\<close> written out, \<^verbatim>\<open>k in d\<close> is
  \<open>map_of d k \<noteq> None\<close> and \<^verbatim>\<open>d.update({k: v})\<close> is
  \<open>AList.update k v d\<close>.

  Numbers: a Python \<^verbatim>\<open>int\<close> is an \<open>int\<close>. A Python
  \<^verbatim>\<open>float\<close> of the configuration is a finite number, idealised as a
  \<open>real\<close> (the section on the PV module says what it keeps of the floats).
  \<open>VGrid\<close> is an instance of the class \<^verbatim>\<open>Grid\<close> of
  \<^verbatim>\<open>pvder.grid_components\<close> or of a subclass of it (named by an object
  identity), \<open>VObj\<close> an instance of a class that is none of the above and no
  subclass of them (class name and identity).
\<close>

datatype pyval =
    VNone
  | VBool bool
  | VInt int
  | VFloat real
  | VComplex real real
  | VStr string
  | VList "pyval list"
  | VDict "(string \<times> pyval) list"
  | VGrid nat
  | VObj string nat

type_synonym pydict = "(string \<times> pyval) list"

datatype pytype =
    T_NoneType | T_bool | T_int | T_float | T_complex | T_str | T_list | T_dict
  | T_Grid | T_class string

fun type_of :: "pyval \<Rightarrow> pytype" where
  "type_of VNone = T_NoneType"
| "type_of (VBool b) = T_bool"
| "type_of (VInt i) = T_int"
| "type_of (VFloat x) = T_float"
| "type_of (VComplex re im) = T_complex"
| "type_of (VStr s) = T_str"
| "type_of (VList xs) = T_list"
| "type_of (VDict d) = T_dict"
| "type_of (VGrid a) = T_Grid"
| "type_of (VObj c a) = T_class c"

text \<open>
  \<^verbatim>\<open>issubclass\<close> on the types above: every type is a subclass of itself, and
  \<^verbatim>\<open>bool\<close> is a subclass of \<^verbatim>\<open>int\<close>.
\<close>

fun issubclass :: "pytype \<Rightarrow> pytype \<Rightarrow> bool" where
  "issubclass T_bool T_int = True"
| "issubclass t u = (t = u)"

text \<open>
  \<^verbatim>\<open>isinstance(v, types)\<close>, where \<^verbatim>\<open>types\<close> is a class or a tuple of
  classes (a one-element list for a single class).
\<close>

fun isinstance :: "pyval \<Rightarrow> pytype list \<Rightarrow> bool" where
  "isinstance v [] = False"
| "isinstance v (t # ts) = (issubclass (type_of v) t \<or> isinstance v ts)"

section \<open>Errors\<close>

text \<open>
  Every \<^verbatim>\<open>raise\<close> of the source is a value \<open>Inl e\<close>. The message of an
  exception is kept as the tuple of arguments its format string receives, so that
  "the message names X" is "the error carries X".
\<close>

datatype message =
    Missing_key string
    \<comment> \<open>\<^verbatim>\<open>d[k]\<close> with \<^verbatim>\<open>k\<close> not in \<^verbatim>\<open>d\<close>\<close>
  | Not_subscriptable pytype
  | Not_a_number pytype
  | Not_callable
  | Found_type string pytype "pytype list"
    \<comment> \<open>\<^verbatim>\<open>'Found {} to have type:{} - Valid type:{}'\<close>\<close>
  | Config_not_found string string "string list"
    \<comment> \<open>\<^verbatim>\<open>'DER configuration with ID:{} could not be found in {}! - Available IDs are:{}'\<close>\<close>
  | Invalid_n_phases string string pyval string
    \<comment> \<open>\<^verbatim>\<open>'{}:DER configuration with ID:{} has {} phases which is invalid for {} DER model!'\<close>\<close>
  | Phases_found string string pyval nat
    \<comment> \<open>\<^verbatim>\<open>'{}:DER configuration with ID:{} has {} phases buf following phases were found {}!'\<close>\<close>
  | Invalid_n_ODE string string pyval string
    \<comment> \<open>\<^verbatim>\<open>'{}:DER configuration with ID:{} has {} ODE equations which is invalid for {} DER model!'\<close>\<close>
  | States_found string string pyval nat string
    \<comment> \<open>\<^verbatim>\<open>'{}:DER configuration with ID:{} needs {} states, but only {} states were found for {} DER model!'\<close>\<close>
  | Invalid_model_class string string
    \<comment> \<open>\<^verbatim>\<open>'{}:{} is an invalid DER model class'\<close>\<close>
  | Module_parameters_not_available string
    \<comment> \<open>\<^verbatim>\<open>'PV module parameters not available for parameter ID {} '\<close>\<close>
  | Index_out_of_range

datatype error =
    ValueError message
  | KeyError message
  | TypeError message
  | IndexError message
  | ZeroDivisionError
  | OverflowError

definition bind_error :: "error + 'a \<Rightarrow> ('a \<Rightarrow> error + 'b) \<Rightarrow> error + 'b" where
  "bind_error r f = (case r of Inl e \<Rightarrow> Inl e | Inr v \<Rightarrow> f v)"

text \<open>\<^verbatim>\<open>d[k]\<close> on a dictionary.\<close>

definition getitem :: "pydict \<Rightarrow> string \<Rightarrow> error + pyval" where
  "getitem d k = (case map_of d k of None \<Rightarrow> Inl (KeyError (Missing_key k)) | Some v \<Rightarrow> Inr v)"

text \<open>\<^verbatim>\<open>v[k]\<close> on any value with a string key: only a dictionary answers.\<close>

fun subscript :: "pyval \<Rightarrow> string \<Rightarrow> error + pyval" where
  "subscript (VDict d) k = getitem d k"
| "subscript v k = Inl (TypeError (Not_subscriptable (type_of v)))"

section \<open>The specification registry\<close>

text \<open>
  \<^verbatim>\<open>specifications.DER_argument_spec\<close>, in the order of the source's dictionary
  literal (the order \<^verbatim>\<open>.items()\<close> iterates in). \<^verbatim>\<open>string_type\<close> is
  \<^verbatim>\<open>str\<close> (the Python 3 branch of \<^verbatim>\<open>six\<close>); a tuple of types is a
  list. A default of \<^verbatim>\<open>None\<close> means that the key has no default.
\<close>

record argument_spec =
  default_value :: pyval
  arg_type :: "pytype list"

definition string_type :: "pytype list" where
  "string_type = [T_str]"

definition DER_argument_spec :: "(string \<times> argument_spec) list" where
  "DER_argument_spec =
    [(''derId'', \<lparr>default_value = VNone, arg_type = string_type\<rparr>),
     (''powerRating'', \<lparr>default_value = VNone, arg_type = [T_int, T_float]\<rparr>),
     (''VrmsRating'', \<lparr>default_value = VNone, arg_type = [T_int, T_float]\<rparr>),
     (''Vdcrated'', \<lparr>default_value = VNone, arg_type = [T_int, T_float]\<rparr>),
     (''gridModel'', \<lparr>default_value = VNone, arg_type = [T_Grid]\<rparr>),
     (''verbosity'', \<lparr>default_value = VStr ''INFO'', arg_type = string_type\<rparr>),
     (''identifier'', \<lparr>default_value = VStr '''', arg_type = string_type\<rparr>),
     (''derConfig'', \<lparr>default_value = VDict [], arg_type = [T_dict]\<rparr>),
     (''gridVoltagePhaseA'', \<lparr>default_value = VNone, arg_type = [T_complex]\<rparr>),
     (''gridVoltagePhaseB'', \<lparr>default_value = VNone, arg_type = [T_complex]\<rparr>),
     (''gridVoltagePhaseC'', \<lparr>default_value = VNone, arg_type = [T_complex]\<rparr>),
     (''gridFrequency'', \<lparr>default_value = VNone, arg_type = [T_int, T_float]\<rparr>),
     (''standAlone'', \<lparr>default_value = VBool True, arg_type = [T_bool]\<rparr>),
     (''steadyStateInitialization'', \<lparr>default_value = VBool True, arg_type = [T_bool]\<rparr>),
     (''allowUnbalancedM'', \<lparr>default_value = VBool False, arg_type = [T_bool]\<rparr>),
     (''ia0'', \<lparr>default_value = VNone, arg_type = [T_complex]\<rparr>),
     (''xa0'', \<lparr>default_value = VNone, arg_type = [T_complex]\<rparr>),
     (''ua0'', \<lparr>default_value = VNone, arg_type = [T_complex]\<rparr>),
     (''xDC0'', \<lparr>default_value = VNone, arg_type = [T_float]\<rparr>),
     (''xP0'', \<lparr>default_value = VNone, arg_type = [T_float]\<rparr>),
     (''xQ0'', \<lparr>default_value = VNone, arg_type = [T_float]\<rparr>)]"

section \<open>The configuration resolver\<close>

subsection \<open>\<^verbatim>\<open>SolarPVDER.get_DER_arguments\<close>\<close>

text \<open>
  The loop over \<^verbatim>\<open>DER_argument_spec.items()\<close>, with the dictionary
  \<^verbatim>\<open>DER_arguments\<close> under construction as the accumulator. The three
  branches are the source's, in its order:
  \<^item> the key is a keyword argument: its value is type-checked and taken, or the
    \<^verbatim>\<open>ValueError\<close> is raised;
  \<^item> the key is in \<^verbatim>\<open>DER_config\<close> (and not a keyword argument): the condition
    of the inner \<^verbatim>\<open>if\<close> is \<^verbatim>\<open>isinstance(kwargs[key], ...)\<close>, and
    \<^verbatim>\<open>kwargs[key]\<close> raises \<^verbatim>\<open>KeyError(key)\<close> since the key is not in
    \<^verbatim>\<open>kwargs\<close>; neither the update nor the \<^verbatim>\<open>ValueError\<close> below it is
    ever reached;
  \<^item> otherwise the default is taken when it is not \<^verbatim>\<open>None\<close>, and a key
    whose default is \<^verbatim>\<open>None\<close> is left out.

  The list \<^verbatim>\<open>used_arguments\<close> only feeds the closing
  \<^verbatim>\<open>logger.debug\<close> line and is not modelled. \<^verbatim>\<open>DER_config\<close> and
  \<^verbatim>\<open>kwargs\<close> are only read.
\<close>

fun get_DER_arguments_loop ::
  "(string \<times> argument_spec) list \<Rightarrow> pydict \<Rightarrow> pydict \<Rightarrow> pydict \<Rightarrow> error + pydict" where
  "get_DER_arguments_loop [] DER_config kwargs DER_arguments = Inr DER_arguments"
| "get_DER_arguments_loop ((key, value) # rest) DER_config kwargs DER_arguments =
     (case map_of kwargs key of
        Some v \<Rightarrow>
          if isinstance v (arg_type value)
          then get_DER_arguments_loop rest DER_config kwargs (AList.update key v DER_arguments)
          else Inl (ValueError (Found_type key (type_of v) (arg_type value)))
      | None \<Rightarrow>
          (case map_of DER_config key of
             Some c \<Rightarrow> Inl (KeyError (Missing_key key))
           | None \<Rightarrow>
               if default_value value \<noteq> VNone
               then get_DER_arguments_loop rest DER_config kwargs
                      (AList.update key (default_value value) DER_arguments)
               else get_DER_arguments_loop rest DER_config kwargs DER_arguments))"

definition get_DER_arguments :: "pydict \<Rightarrow> pydict \<Rightarrow> error + pydict" where
  "get_DER_arguments DER_config kwargs =
     get_DER_arguments_loop DER_argument_spec DER_config kwargs []"

subsection \<open>\<^verbatim>\<open>SolarPVDER.get_DER_config\<close>\<close>

text \<open>
  \<^verbatim>\<open>read_config\<close> hands the file name to \<^verbatim>\<open>utility_functions.read_json\<close>,
  which is not part of the sources at hand: it is the parameter \<open>read_json\<close>, which
  returns the store (device ID to configuration, in the order of the file) or fails. The
  \<^verbatim>\<open>print\<close> of the successful branch is not modelled.
\<close>

definition read_config ::
  "(string \<Rightarrow> error + (string \<times> pydict) list) \<Rightarrow> string \<Rightarrow> error + (string \<times> pydict) list" where
  "read_config read_json configFile = read_json configFile"

definition get_DER_config ::
  "(string \<Rightarrow> error + (string \<times> pydict) list) \<Rightarrow> string \<Rightarrow> string \<Rightarrow> error + pydict" where
  "get_DER_config read_json configFile derId =
     bind_error (read_config read_json configFile) (\<lambda>config_dict.
       let available_ids = map fst config_dict in
       if derId \<in> set available_ids
       then (case map_of config_dict derId of
               Some c \<Rightarrow> Inr c
             | None \<Rightarrow> Inl (KeyError (Missing_key derId)))
       else Inl (KeyError (Config_not_found derId configFile available_ids)))"

subsection \<open>The template sections of \<^verbatim>\<open>SolarPVDER.setup_DER\<close>\<close>

text \<open>
  The loop of \<^verbatim>\<open>setup_DER\<close> over the keys of
  \<^verbatim>\<open>self.DER_design_template\<close> (lines 65 to 69). \<^verbatim>\<open>DER_config\<close> is the
  dictionary that \<^verbatim>\<open>get_DER_config\<close> loaded and that
  \<^verbatim>\<open>get_DER_arguments\<close> has read; \<^verbatim>\<open>DER_parent_config\<close> is the parent's,
  or a new empty dictionary. Both are updated in place by
  \<^verbatim>\<open>.update({DER_component:{}})\<close>: the state is the pair of their contents, and
  the function returns the contents after the loop.
\<close>

fun setup_DER_components :: "string list \<Rightarrow> pydict \<times> pydict \<Rightarrow> pydict \<times> pydict" where
  "setup_DER_components [] (DER_config, DER_parent_config) = (DER_config, DER_parent_config)"
| "setup_DER_components (DER_component # rest) (DER_config, DER_parent_config) =
     setup_DER_components rest
       (if map_of DER_config DER_component = None
        then AList.update DER_component (VDict []) DER_config else DER_config,
        if map_of DER_parent_config DER_component = None
        then AList.update DER_component (VDict []) DER_parent_config else DER_parent_config)"

subsection \<open>\<^verbatim>\<open>SolarPVDER.check_basic_specs\<close>\<close>

text \<open>
  Modelled from the spec: \<^verbatim>\<open>templates.DER_design_template\<close> is not part of the
  sources at hand. A template entry holds what \<^verbatim>\<open>check_basic_specs\<close> reads
  from it: the declared phase count, the ordered phase names and the declared state
  count of its \<^verbatim>\<open>basic_specs\<close> block, and the initial-state vector. The registry
  is an association list from model type to entry.
\<close>

record template_basic_specs =
  n_phases :: int
  phases :: "string list"
  n_ODE :: int

record template =
  basic_specs :: template_basic_specs
  initial_states :: "pyval list"

text \<open>The fields of the host object that the functions below read.\<close>

record der_host =
  name :: string
  parameter_ID :: string
  DER_model_type :: string
  DER_config :: pydict

text \<open>
  \<^verbatim>\<open>v == n\<close> for a configuration value \<^verbatim>\<open>v\<close> and an integer
  \<^verbatim>\<open>n\<close>: numbers compare by value (\<^verbatim>\<open>True == 1\<close>,
  \<^verbatim>\<open>3.0 == 3\<close>), everything else is unequal to an integer.
\<close>

fun py_eq_int :: "pyval \<Rightarrow> int \<Rightarrow> bool" where
  "py_eq_int (VInt i) n = (i = n)"
| "py_eq_int (VBool b) n = ((if b then 1 else 0) = n)"
| "py_eq_int (VFloat x) n = (x = of_int n)"
| "py_eq_int (VComplex re im) n = (re = of_int n \<and> im = 0)"
| "py_eq_int v n = False"

definition check_basic_specs :: "(string \<times> template) list \<Rightarrow> der_host \<Rightarrow> error + unit" where
  "check_basic_specs DER_design_template self =
     (case map_of DER_design_template (DER_model_type self) of
        None \<Rightarrow> Inl (ValueError (Invalid_model_class (name self) (DER_model_type self)))
      | Some t \<Rightarrow>
          bind_error (getitem (DER_config self) ''basic_specs'') (\<lambda>bs.
          bind_error (subscript bs ''n_phases'') (\<lambda>n_phases'.
            if \<not> py_eq_int n_phases' (n_phases (basic_specs t))
            then Inl (ValueError (Invalid_n_phases (name self) (parameter_ID self) n_phases'
                        (DER_model_type self)))
            else if \<not> py_eq_int n_phases' (int (length (phases (basic_specs t))))
            then Inl (ValueError (Phases_found (name self) (parameter_ID self) n_phases'
                        (length (phases (basic_specs t)))))
            else
              bind_error (getitem (DER_config self) ''basic_specs'') (\<lambda>bs'.
              bind_error (subscript bs' ''n_ODE'') (\<lambda>n_ODE'.
                if \<not> py_eq_int n_ODE' (n_ODE (basic_specs t))
                then Inl (ValueError (Invalid_n_ODE (name self) (parameter_ID self) n_ODE'
                            (DER_model_type self)))
                else if \<not> py_eq_int n_ODE' (int (length (initial_states t)))
                then Inl (ValueError (States_found (name self) (parameter_ID self) n_ODE'
                            (length (initial_states t)) (DER_model_type self)))
                else Inr ())))))"

section \<open>The PV module\<close>

subsection \<open>Numbers\<close>

text \<open>
  The numbers of the PV module are floats. The inputs (the entries of the parameter
  table, the insolation, the temperature, the voltage, \<^verbatim>\<open>BaseValues.Sbase\<close>) are
  finite; an entry that the table gives as an integer is within the range of the floats.
  A finite float is a \<open>real\<close>, and the arithmetic on finite values is exact: the
  rounding of a finite result is outside the model (a bound stated on an exact value
  holds for the float up to that rounding), and a zero is the positive zero. What
  decides whether a call raises or returns is inside the model:
  \<^item> the class of the operands of a division. Python's own numbers raise
    \<^verbatim>\<open>ZeroDivisionError\<close> on a zero divisor; with a numpy scalar among the
    operands the quotient is an infinity or a NaN (and a warning), and the computation
    goes on. The argument \<^verbatim>\<open>Vdc_actual\<close>, the insolation and the temperature
    carry their class (\<^verbatim>\<open>fit_MPP_poly\<close> works on numpy scalars: the samples of
    \<^verbatim>\<open>np.linspace\<close> and the result of \<^verbatim>\<open>fsolve\<close>). The entries of
    the parameter table and \<^verbatim>\<open>BaseValues.Sbase\<close> are Python numbers;
  \<^item> the range of \<^verbatim>\<open>math.exp\<close>: \<^verbatim>\<open>OverflowError\<close> for a finite argument
    above \<open>exp_max\<close>, the largest float whose exponential is finite (about
    709.78), and no error for an infinity or a NaN;
  \<^item> the divisor of the exponent when its product underflows to zero, and the
    exponent when the quotient overflows to infinity.

  No other operation of the module raises on an overflow: a float product, difference
  or quotient that overflows is an infinity, where the model keeps the exact value.
\<close>

datatype number_class = Python_number | Numpy_scalar

definition join_class :: "number_class \<Rightarrow> number_class \<Rightarrow> number_class" where
  "join_class a b = (if a = Python_number \<and> b = Python_number then Python_number else Numpy_scalar)"

datatype xreal = Fin real | PInf | MInf | NaN

fun xtimes :: "xreal \<Rightarrow> xreal \<Rightarrow> xreal" where
  "xtimes (Fin a) (Fin b) = Fin (a * b)"
| "xtimes NaN y = NaN"
| "xtimes x NaN = NaN"
| "xtimes (Fin a) PInf = (if 0 < a then PInf else if a < 0 then MInf else NaN)"
| "xtimes (Fin a) MInf = (if 0 < a then MInf else if a < 0 then PInf else NaN)"
| "xtimes PInf (Fin b) = (if 0 < b then PInf else if b < 0 then MInf else NaN)"
| "xtimes MInf (Fin b) = (if 0 < b then MInf else if b < 0 then PInf else NaN)"
| "xtimes PInf PInf = PInf"
| "xtimes PInf MInf = MInf"
| "xtimes MInf PInf = MInf"
| "xtimes MInf MInf = PInf"

fun xminus :: "xreal \<Rightarrow> xreal \<Rightarrow> xreal" where
  "xminus (Fin a) (Fin b) = Fin (a - b)"
| "xminus NaN y = NaN"
| "xminus x NaN = NaN"
| "xminus (Fin a) PInf = MInf"
| "xminus (Fin a) MInf = PInf"
| "xminus PInf (Fin b) = PInf"
| "xminus MInf (Fin b) = MInf"
| "xminus PInf PInf = NaN"
| "xminus PInf MInf = PInf"
| "xminus MInf PInf = MInf"
| "xminus MInf MInf = NaN"

text \<open>\<^verbatim>\<open>x > 0\<close>, the comparison that \<^verbatim>\<open>max(0, x)\<close> makes.\<close>

fun xpositive :: "xreal \<Rightarrow> bool" where
  "xpositive (Fin a) = (0 < a)"
| "xpositive PInf = True"
| "xpositive x = False"

text \<open>
  \<^verbatim>\<open>x / d\<close> for a finite divisor \<open>d\<close>; \<open>c\<close> is \<open>Python_number\<close> when both
  operands are Python numbers.
\<close>

definition xtruediv :: "number_class \<Rightarrow> xreal \<Rightarrow> real \<Rightarrow> error + xreal" where
  "xtruediv c x d =
     (if d = 0
      then (if c = Python_number then Inl ZeroDivisionError
            else Inr (case x of
                        Fin n \<Rightarrow> if 0 < n then PInf else if n < 0 then MInf else NaN
                      | PInf \<Rightarrow> PInf | MInf \<Rightarrow> MInf | NaN \<Rightarrow> NaN))
      else Inr (case x of
                  Fin n \<Rightarrow> Fin (n / d)
                | PInf \<Rightarrow> if 0 < d then PInf else MInf
                | MInf \<Rightarrow> if 0 < d then MInf else PInf
                | NaN \<Rightarrow> NaN))"

text \<open>
  The bounds of the floats: \<open>exp_max\<close> is the float
  \<^verbatim>\<open>0x1.62e42fefa39efp+9\<close>; a value of magnitude \<open>float_overflow\<close> or more
  rounds to an infinity; a value of magnitude \<open>2^-1075\<close> or less rounds to zero.
\<close>

definition exp_max :: real where
  "exp_max = 6243314768165359 / 2 ^ 43"

definition float_overflow :: real where
  "float_overflow = 2 ^ 1024 - 2 ^ 970"

definition rounds_to_zero :: "real \<Rightarrow> bool" where
  "rounds_to_zero x = (\<bar>x\<bar> \<le> 1 / 2 ^ 1075)"

fun math_exp :: "xreal \<Rightarrow> error + xreal" where
  "math_exp (Fin x) = (if exp_max < x then Inl OverflowError else Inr (Fin (exp x)))"
| "math_exp PInf = Inr PInf"
| "math_exp MInf = Inr (Fin 0)"
| "math_exp NaN = Inr NaN"

subsection \<open>Class attributes of \<^verbatim>\<open>PVModule\<close>\<close>

text \<open>
  The class attributes with the values of the source. The single-letter attributes
  \<^verbatim>\<open>q\<close>, \<^verbatim>\<open>k\<close> and \<^verbatim>\<open>A\<close> carry the class name, and the
  attributes that start with an underscore lose it.
\<close>

definition USE_POLYNOMIAL_MPP :: bool where "USE_POLYNOMIAL_MPP = True"
definition MPP_fit_points_class :: nat where "MPP_fit_points_class = 50"
definition S_min :: real where "S_min = 10.0"
definition S_max :: real where "S_max = 100.0"

definition Iscr :: real where "Iscr = 8.03"
definition Kv :: real where "Kv = 0.0017"
definition T0 :: real where "T0 = 273.15 + 25.0"
definition Irs :: real where "Irs = 1.2 / 10 ^ 7"
definition PVModule_q :: real where "PVModule_q = 1.602 / 10 ^ 19"
definition PVModule_k :: real where "PVModule_k = 1.38 / 10 ^ 23"
definition PVModule_A :: real where "PVModule_A = 1.92"

subsection \<open>The instance\<close>

text \<open>
  An entry of \<^verbatim>\<open>self.module_parameters\<close> has the five fields that
  \<^verbatim>\<open>initialize_module_parameters\<close> copies into the instance (the table itself is
  given by the host class and is a parameter here). The instance adds the fields that
  \<^verbatim>\<open>__init__\<close> and the methods assign; \<open>None\<close> is an attribute that has
  not been assigned yet. \<open>MPP_fit_points\<close> is \<^verbatim>\<open>self._MPP_fit_points\<close>.
  \<open>Sinsol_class\<close> and \<open>Tactual_class\<close> are the classes of the objects that
  \<^verbatim>\<open>self.Sinsol\<close> and \<^verbatim>\<open>self.Tactual\<close> hold. \<^verbatim>\<open>self.Ipv\<close> can
  hold an infinity or a NaN.
\<close>

record module_parameter =
  Np :: real
  Ns :: real
  Vdcmpp0 :: real
  Vdcmpp_min :: real
  Vdcmpp_max :: real

record pv_module = module_parameter +
  Sinsol :: real
  Tactual :: real
  Iph :: "real option"
  Ipv :: "xreal option"
  z :: "real list option"
  MPP_fit_points :: nat
  Sinsol_class :: number_class
  Tactual_class :: number_class

text \<open>
  What the module takes from outside this file:
  \<^item> \<open>fsolve f x0\<close> is \<^verbatim>\<open>scipy.optimize.fsolve(f, x0)[0]\<close>, a numpy scalar,
    returned as it comes (the source makes no convergence check) and taken to be
    finite;
  \<^item> \<open>polyfit x y deg\<close> is \<^verbatim>\<open>numpy.polyfit(x, y, deg)\<close>, taken to return
    its coefficients;
  \<^item> \<open>Sbase\<close> is \<^verbatim>\<open>BaseValues.Sbase\<close> of \<^verbatim>\<open>pvder.grid_components\<close>;
  \<^item> \<open>defaults_Tactual\<close> is \<^verbatim>\<open>defaults.Tactual\<close>, a Python number;
  \<^item> \<open>logger_callable\<close> says whether the object \<^verbatim>\<open>self.logger\<close> can be
    called as a function, as \<^verbatim>\<open>fit_MPP_poly\<close> does
    (\<^verbatim>\<open>self.logger('...')\<close>); calling an object that is not callable raises
    \<^verbatim>\<open>TypeError\<close>. Its method \<^verbatim>\<open>debug\<close>, which the constructor calls, is
    taken to exist.
\<close>

record externals =
  fsolve :: "(real \<Rightarrow> real) \<Rightarrow> real \<Rightarrow> real"
  polyfit :: "real list \<Rightarrow> real list \<Rightarrow> nat \<Rightarrow> real list"
  Sbase :: real
  defaults_Tactual :: real
  logger_callable :: bool

subsection \<open>\<^verbatim>\<open>PVModule.Iph_calc\<close>\<close>

definition Iph_calc :: "'a pv_module_scheme \<Rightarrow> real" where
  "Iph_calc self = (Iscr + (Kv * (Tactual self - T0))) * (Sinsol self / 100.0)"

text \<open>The class of the photocurrent: that of the temperature and the insolation.\<close>

definition Iph_class :: "'a pv_module_scheme \<Rightarrow> number_class" where
  "Iph_class self = join_class (Tactual_class self) (Sinsol_class self)"

subsection \<open>\<^verbatim>\<open>PVModule.Vdcmpp\<close>\<close>

text \<open>
  The function whose root \<^verbatim>\<open>fsolve\<close> looks for, as the \<^verbatim>\<open>lambda\<close> of the
  source writes it; \<open>iph\<close> is \<^verbatim>\<open>self.Iph\<close>, which the property has just
  assigned. The function is only handed to \<^verbatim>\<open>fsolve\<close>. The property
  returns what \<^verbatim>\<open>fsolve\<close> gives and leaves the new photocurrent in the
  instance.
\<close>

definition Vdcmpp_residual :: "'a pv_module_scheme \<Rightarrow> real \<Rightarrow> real \<Rightarrow> real" where
  "Vdcmpp_residual self iph Vdc0 =
     - ((Np self * Irs *
          (exp ((PVModule_q * Vdc0) / (PVModule_k * Tactual self * PVModule_A * Ns self))))
        * (PVModule_q / (PVModule_k * Tactual self * PVModule_A * Ns self)) * Vdc0)
     - ((Np self * Irs *
          (exp ((PVModule_q * Vdc0) / (PVModule_k * Tactual self * PVModule_A * Ns self)) - 1)))
     + (Np self * iph)"

definition Vdcmpp :: "externals \<Rightarrow> pv_module \<Rightarrow> real \<times> pv_module" where
  "Vdcmpp ext self =
     (let iph = Iph_calc self;
          self = self\<lparr>Iph := Some iph\<rparr>
      in (fsolve ext (Vdcmpp_residual self iph) (Vdcmpp0 self), self))"

subsection \<open>\<^verbatim>\<open>PVModule.Ppv_calc\<close>\<close>

text \<open>
  The divisor \<^verbatim>\<open>self.k*self.Tactual*self.A*self.Ns\<close> of the exponent, as the
  float it is: zero when one of its products, taken from left to right, rounds to zero.
\<close>

definition exponent_divisor :: "'a pv_module_scheme \<Rightarrow> real" where
  "exponent_divisor self =
     (if rounds_to_zero (PVModule_k * Tactual self)
         \<or> rounds_to_zero (PVModule_k * Tactual self * PVModule_A)
         \<or> rounds_to_zero (PVModule_k * Tactual self * PVModule_A * Ns self)
      then 0
      else PVModule_k * Tactual self * PVModule_A * Ns self)"

text \<open>
  The exponent
  \<^verbatim>\<open>(self.q*Vdc_actual)/(self.k*self.Tactual*self.A*self.Ns)\<close>. The division is
  Python's when \<^verbatim>\<open>Vdc_actual\<close> and \<^verbatim>\<open>self.Tactual\<close> are Python numbers.
  A quotient of \<open>float_overflow\<close> or more is the positive infinity. (A quotient below
  the negative range is the negative infinity, whose exponential is 0.0; the model
  keeps the finite quotient, whose exponential rounds to 0.0.)
\<close>

definition exponent :: "number_class \<Rightarrow> real \<Rightarrow> 'a pv_module_scheme \<Rightarrow> error + xreal" where
  "exponent Vdc_class Vdc_actual self =
     bind_error
       (xtruediv (join_class Vdc_class (Tactual_class self)) (Fin (PVModule_q * Vdc_actual))
          (exponent_divisor self))
       (\<lambda>x. Inr (case x of
                   Fin r \<Rightarrow> if float_overflow \<le> r then PInf else Fin r
                 | PInf \<Rightarrow> PInf | MInf \<Rightarrow> MInf | NaN \<Rightarrow> NaN))"

text \<open>
  \<open>Sbase'\<close> is \<^verbatim>\<open>BaseValues.Sbase\<close> and \<open>Vdc_class\<close> the class of the
  argument. The method assigns \<^verbatim>\<open>self.Iph\<close>, computes the exponent and its
  exponential (either can raise), assigns \<^verbatim>\<open>self.Ipv\<close> and returns
  \<^verbatim>\<open>max(0,(self.Ipv*Vdc_actual))/BaseValues.Sbase\<close>: \<^verbatim>\<open>max\<close> gives the
  product when it is greater than 0 and the integer 0 otherwise (also for a NaN), and
  the last division is Python's unless the product is a numpy scalar.
\<close>

definition Ppv_calc ::
  "real \<Rightarrow> number_class \<Rightarrow> real \<Rightarrow> pv_module \<Rightarrow> error + xreal \<times> pv_module" where
  "Ppv_calc Sbase' Vdc_class Vdc_actual self =
     (let iph = Iph_calc self;
          self = self\<lparr>Iph := Some iph\<rparr>
      in bind_error (exponent Vdc_class Vdc_actual self) (\<lambda>x.
         bind_error (math_exp x) (\<lambda>e.
           let ipv = xminus (Fin (Np self * iph))
                       (xtimes (Fin (Np self * Irs)) (xminus e (Fin 1)));
               self = self\<lparr>Ipv := Some ipv\<rparr>;
               product = xtimes ipv (Fin Vdc_actual)
           in bind_error
                (if xpositive product
                 then xtruediv (join_class (Iph_class self) Vdc_class) product Sbase'
                 else xtruediv Python_number (Fin 0) Sbase')
                (\<lambda>Ppv. Inr (Ppv, self)))))"

subsection \<open>\<^verbatim>\<open>PVModule.fit_MPP_poly\<close>\<close>

text \<open>
  \<^verbatim>\<open>numpy.linspace(start, stop, num)\<close>: \<open>num\<close> points from \<open>start\<close> to
  \<open>stop\<close>, both included, \<open>(stop - start) / (num - 1)\<close> apart.
\<close>

definition linspace :: "real \<Rightarrow> real \<Rightarrow> nat \<Rightarrow> real list" where
  "linspace start stop num =
     map (\<lambda>i. start + real i * ((stop - start) / real (num - 1))) [0..<num]"

text \<open>
  The body of the loop \<^verbatim>\<open>for S in _Srange\<close>, on the instance and the three
  lists. The sample \<^verbatim>\<open>S\<close> and the value of \<^verbatim>\<open>self.Vdcmpp\<close> are numpy
  scalars. \<^verbatim>\<open>self.Vdcmpp\<close> is read twice, as in the source.
\<close>

fun fit_MPP_loop ::
  "externals \<Rightarrow> real list \<Rightarrow> pv_module \<times> real list \<times> real list \<times> xreal list
   \<Rightarrow> error + pv_module \<times> real list \<times> real list \<times> xreal list" where
  "fit_MPP_loop ext [] st = Inr st"
| "fit_MPP_loop ext (S # rest) (self, Sinsol_list, Vdcmpp_list, Ppvmpp_list) =
     (let self = self\<lparr>Sinsol := S, Sinsol_class := Numpy_scalar\<rparr>;
          (Vdcmpp', self) = Vdcmpp ext self;
          (Vdcmpp'', self) = Vdcmpp ext self
      in bind_error (Ppv_calc (Sbase ext) Numpy_scalar Vdcmpp'' self) (\<lambda>(Ppv, self).
           let Ppvmpp = xtimes Ppv (Fin (Sbase ext))
           in fit_MPP_loop ext rest
                (self, Sinsol_list @ [S], Vdcmpp_list @ [Vdcmpp'], Ppvmpp_list @ [Ppvmpp])))"

text \<open>
  The closing log line formats \<^verbatim>\<open>self.z[0]\<close> to \<^verbatim>\<open>self.z[3]\<close>: an
  \<^verbatim>\<open>IndexError\<close> when \<^verbatim>\<open>polyfit\<close> gave fewer than four coefficients.
\<close>

definition fit_MPP_poly :: "externals \<Rightarrow> pv_module \<Rightarrow> error + pv_module" where
  "fit_MPP_poly ext self =
     (let self = self\<lparr>Tactual := 298.15, Tactual_class := Python_number\<rparr>;
          self = self\<lparr>MPP_fit_points := 10\<rparr>;
          Srange = linspace S_min S_max (MPP_fit_points self + 1)
      in if \<not> logger_callable ext then Inl (TypeError Not_callable)
         else
           bind_error (fit_MPP_loop ext Srange (self, [], [], []))
             (\<lambda>(self, Sinsol_list, Vdcmpp_list, Ppvmpp_list).
                let coefficients = polyfit ext Sinsol_list Vdcmpp_list 3;
                    self = self\<lparr>z := Some coefficients\<rparr>
                in if length coefficients < 4 then Inl (IndexError Index_out_of_range)
                   else Inr self))"

subsection \<open>\<^verbatim>\<open>PVModule.initialize_module_parameters\<close> and \<^verbatim>\<open>PVModule.__init__\<close>\<close>

definition initialize_module_parameters ::
  "(string \<times> module_parameter) list \<Rightarrow> string \<Rightarrow> error + module_parameter" where
  "initialize_module_parameters module_parameters parameter_ID' =
     (case map_of module_parameters parameter_ID' of
        Some p \<Rightarrow> Inr p
      | None \<Rightarrow> Inl (ValueError (Module_parameters_not_available parameter_ID')))"

text \<open>
  The arguments of the first line of \<^verbatim>\<open>__init__\<close>, a debug message: it reads
  \<^verbatim>\<open>self.DER_config['inverter_ratings']['Srated']/1e3\<close>, which raises when a key
  is missing (\<^verbatim>\<open>KeyError\<close>), when the value is not a number that \<^verbatim>\<open>int\<close>
  converts (\<^verbatim>\<open>TypeError\<close>) and when it is an integer too large for a float
  (\<^verbatim>\<open>OverflowError\<close>). A float of the configuration is finite, so that
  \<^verbatim>\<open>int\<close> converts its quotient. The text of the message is not modelled, only
  whether its arguments can be evaluated.
\<close>

fun Srated_kVA :: "pyval \<Rightarrow> error + real" where
  "Srated_kVA (VInt i) =
     (if float_overflow \<le> \<bar>of_int i\<bar> then Inl OverflowError else Inr (of_int i / 1000))"
| "Srated_kVA (VFloat x) = Inr (x / 1000)"
| "Srated_kVA (VBool b) = Inr ((if b then 1 else 0) / 1000)"
| "Srated_kVA v = Inl (TypeError (Not_a_number (type_of v)))"

definition creating_message :: "der_host \<Rightarrow> error + real" where
  "creating_message host =
     bind_error (getitem (DER_config host) ''inverter_ratings'') (\<lambda>ratings.
     bind_error (subscript ratings ''Srated'') Srated_kVA)"

text \<open>
  The constructor: \<open>host\<close> holds the attributes the host class gives the object
  before the constructor runs, \<open>module_parameters\<close> and \<open>MPPT_ENABLE\<close> are two
  more of them; \<open>Sinsol'\<close> is the argument and \<open>Sinsol_class'\<close> its class. An error
  leaves no instance.
\<close>

definition PVModule_init ::
  "externals \<Rightarrow> der_host \<Rightarrow> (string \<times> module_parameter) list \<Rightarrow> bool \<Rightarrow> number_class
   \<Rightarrow> real \<Rightarrow> error + pv_module" where
  "PVModule_init ext host module_parameters MPPT_ENABLE Sinsol_class' Sinsol' =
     bind_error (creating_message host) (\<lambda>_.
     bind_error (initialize_module_parameters module_parameters (parameter_ID host)) (\<lambda>p.
       let self = \<lparr>Np = Np p, Ns = Ns p, Vdcmpp0 = Vdcmpp0 p, Vdcmpp_min = Vdcmpp_min p,
                   Vdcmpp_max = Vdcmpp_max p, Sinsol = Sinsol',
                   Tactual = defaults_Tactual ext, Iph = None, Ipv = None, z = None,
                   MPP_fit_points = MPP_fit_points_class, Sinsol_class = Sinsol_class',
                   Tactual_class = Python_number\<rparr>
       in bind_error
            (if MPPT_ENABLE \<and> USE_POLYNOMIAL_MPP then fit_MPP_poly ext self else Inr self)
            (\<lambda>self. Inr (self\<lparr>Iph := Some (Iph_calc self)\<rparr>))))"

subsection \<open>The samples of the fit\<close>

text \<open>
  Two names for stating what the loop of \<^verbatim>\<open>fit_MPP_poly\<close> computes at an
  insolation \<open>S\<close>, for the parameters and the temperature of \<open>self\<close>: the value
  of the property \<^verbatim>\<open>Vdcmpp\<close>, and the power
  \<^verbatim>\<open>Ppv_calc(self.Vdcmpp)*BaseValues.Sbase\<close> there (when that call returns).
\<close>

definition Vdcmpp_at :: "externals \<Rightarrow> pv_module \<Rightarrow> real \<Rightarrow> real" where
  "Vdcmpp_at ext self S = fst (Vdcmpp ext (self\<lparr>Sinsol := S\<rparr>))"

definition Ppvmpp_at :: "externals \<Rightarrow> pv_module \<Rightarrow> real \<Rightarrow> xreal" where
  "Ppvmpp_at ext self S =
     (case Ppv_calc (Sbase ext) Numpy_scalar (Vdcmpp_at ext self S)
             (self\<lparr>Sinsol := S, Sinsol_class := Numpy_scalar\<rparr>) of
        Inr (p, _) \<Rightarrow> xtimes p (Fin (Sbase ext))
      | Inl _ \<Rightarrow> NaN)"

text \<open>
  The panel current of the single-diode model at a voltage \<open>V\<close>, for the parameters,
  the insolation and the temperature of \<open>self\<close>: the value that
  \<^verbatim>\<open>Ppv_calc\<close> assigns to \<^verbatim>\<open>self.Ipv\<close> when the exponent is finite.
\<close>

definition Ipv_at :: "'a pv_module_scheme \<Rightarrow> real \<Rightarrow> real" where
  "Ipv_at self V =
     (Np self * Iph_calc self)
     - (Np self * Irs *
         (exp ((PVModule_q * V) / (PVModule_k * Tactual self * PVModule_A * Ns self)) - 1))"

text \<open>
  The parameter table that the class body of \<^verbatim>\<open>PVModule\<close> lists (inside a string
  literal, so the class itself does not define it), and a host configured for the 50 kVA
  device: the data of the examples below.
\<close>

definition module_parameters_listed :: "(string \<times> module_parameter) list" where
  "module_parameters_listed =
     [(''1'', \<lparr>Np = 2, Ns = 500, Vdcmpp0 = 250.0, Vdcmpp_min = 225.0, Vdcmpp_max = 300.0\<rparr>),
      (''10'', \<lparr>Np = 2, Ns = 1000, Vdcmpp0 = 750.0, Vdcmpp_min = 650.0, Vdcmpp_max = 800.0\<rparr>),
      (''50'', \<lparr>Np = 11, Ns = 735, Vdcmpp0 = 550.0, Vdcmpp_min = 520.0, Vdcmpp_max = 650.0\<rparr>),
      (''250'', \<lparr>Np = 45, Ns = 1000, Vdcmpp0 = 750.0, Vdcmpp_min = 750.0, Vdcmpp_max = 1000.0\<rparr>)]"

definition host_50 :: der_host where
  "host_50 =
     \<lparr>name = ''PVDER_1'', parameter_ID = ''50'', DER_model_type = ''SolarPV_DER_ThreePhase'',
      DER_config = [(''inverter_ratings'', VDict [(''Srated'', VFloat 50000)])]\<rparr>"

section \<open>Properties of the configuration resolver\<close>

subsection \<open>The merge loop\<close>

lemma get_DER_arguments_loop_config_only:
  "(key, sp) \<in> set spec \<Longrightarrow> map_of kwargs key = None \<Longrightarrow> map_of DER_config' key = Some c
   \<Longrightarrow> get_DER_arguments_loop spec DER_config' kwargs acc \<noteq> Inr r"
  by (induction spec DER_config' kwargs acc rule: get_DER_arguments_loop.induct)
     (auto split: option.splits)

lemma get_DER_arguments_loop_skip:
  "map_of kwargs key = None \<Longrightarrow> map_of DER_config' key = None
   \<Longrightarrow> \<forall>sp. (key, sp) \<in> set spec \<longrightarrow> default_value sp = VNone
   \<Longrightarrow> get_DER_arguments_loop spec DER_config' kwargs acc =
       get_DER_arguments_loop (filter (\<lambda>e. fst e \<noteq> key) spec) DER_config' kwargs acc"
  by (induction spec DER_config' kwargs acc rule: get_DER_arguments_loop.induct)
     (auto split: option.splits)

lemma get_DER_arguments_loop_other:
  "get_DER_arguments_loop spec DER_config' kwargs acc = Inr r \<Longrightarrow> k \<notin> fst ` set spec
   \<Longrightarrow> map_of r k = map_of acc k"
  by (induction spec DER_config' kwargs acc rule: get_DER_arguments_loop.induct)
     (auto split: option.splits if_splits simp: update_conv')

lemma get_DER_arguments_loop_lookup:
  "get_DER_arguments_loop spec DER_config' kwargs acc = Inr r \<Longrightarrow> distinct (map fst spec)
   \<Longrightarrow> map_of spec k = Some sp
   \<Longrightarrow> map_of r k =
       (case map_of kwargs k of
          Some v \<Rightarrow> Some v
        | None \<Rightarrow> if default_value sp \<noteq> VNone then Some (default_value sp) else map_of acc k)"
proof (induction spec DER_config' kwargs acc rule: get_DER_arguments_loop.induct)
  case (1 DER_config' kwargs DER_arguments)
  then show ?case by simp
next
  case (2 key "value" rest DER_config' kwargs DER_arguments)
  show ?case
  proof (cases "k = key")
    case True
    with 2 show ?thesis
      by (auto split: option.splits if_splits simp: update_conv'
               dest!: get_DER_arguments_loop_other)
  next
    case False
    with 2 show ?thesis
      by (auto split: option.splits if_splits simp: update_conv')
  qed
qed

lemma distinct_DER_argument_spec: "distinct (map fst DER_argument_spec)"
  by (simp add: DER_argument_spec_def)

subsection \<open>C1: a key of the configuration that is not a keyword argument\<close>

text \<open>
  C1. The claim: the merged result takes the keyword argument when there is one, else the
  value of the configuration when the key is there, else the default; in particular a key
  that is in the configuration and not among the keyword arguments is type-checked and
  returned without error when its type matches.

  The code does not do the last part. In the branch for a key of the configuration the
  type check reads \<^verbatim>\<open>kwargs[key]\<close>, not \<^verbatim>\<open>DER_config[key]\<close>, and the key is not
  in \<^verbatim>\<open>kwargs\<close> there: the merge stops with \<^verbatim>\<open>KeyError\<close>. The update and
  the error message of the same branch both read \<^verbatim>\<open>DER_config[key]\<close>, which is
  what the check was meant to read. At the input below the configuration gives
  \<^verbatim>\<open>verbosity\<close> a string, which is the declared type, and there is no keyword
  argument: the merge raises \<^verbatim>\<open>KeyError('verbosity')\<close>.
\<close>

theorem get_DER_arguments_config_value_KeyError:
  "map_of DER_argument_spec ''verbosity''
     = Some \<lparr>default_value = VStr ''INFO'', arg_type = [T_str]\<rparr>
   \<and> isinstance (VStr ''DEBUG'') [T_str]
   \<and> get_DER_arguments [(''verbosity'', VStr ''DEBUG'')] []
     = Inl (KeyError (Missing_key ''verbosity''))"
  by (simp add: get_DER_arguments_def DER_argument_spec_def string_type_def)

subsection \<open>C3: a key with no default that nobody gives\<close>

text \<open>
  C3. The claim: when a key of the registry whose default is the "required" marker (no
  default value) is absent from both the keyword arguments and the configuration, the
  merge fails instead of returning a result without the key.

  The code has no such check: the last branch of the loop only asks whether the default
  is \<^verbatim>\<open>None\<close> and moves on. With no keyword argument and an empty configuration
  the merge returns the six defaults, and \<^verbatim>\<open>powerRating\<close> (default
  \<^verbatim>\<open>None\<close>) is not among them.
\<close>

theorem get_DER_arguments_required_absent_returns:
  "map_of DER_argument_spec ''powerRating''
     = Some \<lparr>default_value = VNone, arg_type = [T_int, T_float]\<rparr>
   \<and> get_DER_arguments [] []
     = Inr [(''verbosity'', VStr ''INFO''), (''identifier'', VStr ''''),
            (''derConfig'', VDict []), (''standAlone'', VBool True),
            (''steadyStateInitialization'', VBool True), (''allowUnbalancedM'', VBool False)]"
  by (simp add: get_DER_arguments_def DER_argument_spec_def string_type_def)

text \<open>
  C3, as the code has it: a key of the registry whose default is \<^verbatim>\<open>None\<close> and
  that is absent from both the keyword arguments and the configuration is passed over.
  The merge behaves as it would on the registry without that entry (so it does not fail
  because of the key), and a result it returns does not hold the key.
\<close>

theorem get_DER_arguments_required_absent_omitted:
  assumes "map_of DER_argument_spec key = Some sp"
    and "default_value sp = VNone"
    and "map_of kwargs key = None"
    and "map_of DER_config' key = None"
  shows "get_DER_arguments DER_config' kwargs =
           get_DER_arguments_loop (filter (\<lambda>e. fst e \<noteq> key) DER_argument_spec)
             DER_config' kwargs []
         \<and> (\<forall>r. get_DER_arguments DER_config' kwargs = Inr r \<longrightarrow> map_of r key = None)"
proof -
  have "\<forall>sp'. (key, sp') \<in> set DER_argument_spec \<longrightarrow> default_value sp' = VNone"
    using assms(1,2) map_of_is_SomeI[OF distinct_DER_argument_spec] by fastforce
  then have "get_DER_arguments DER_config' kwargs =
      get_DER_arguments_loop (filter (\<lambda>e. fst e \<noteq> key) DER_argument_spec) DER_config' kwargs []"
    unfolding get_DER_arguments_def
    using assms(3,4) get_DER_arguments_loop_skip by blast
  moreover have "map_of r key = None" if "get_DER_arguments DER_config' kwargs = Inr r" for r
    using get_DER_arguments_loop_lookup[OF that[unfolded get_DER_arguments_def]
            distinct_DER_argument_spec assms(1)] assms(2,3)
    by simp
  ultimately show ?thesis by blast
qed

theorem get_DER_arguments_required_absent_omitted_witness:
  "get_DER_arguments [(''basic_specs'', VDict [])] [(''derId'', VStr ''50'')] =
     get_DER_arguments_loop (filter (\<lambda>e. fst e \<noteq> ''VrmsRating'') DER_argument_spec)
       [(''basic_specs'', VDict [])] [(''derId'', VStr ''50'')] []
   \<and> get_DER_arguments [(''basic_specs'', VDict [])] [(''derId'', VStr ''50'')] =
       Inr [(''derId'', VStr ''50''), (''verbosity'', VStr ''INFO''), (''identifier'', VStr ''''),
            (''derConfig'', VDict []), (''standAlone'', VBool True),
            (''steadyStateInitialization'', VBool True), (''allowUnbalancedM'', VBool False)]
   \<and> map_of [(''derId'', VStr ''50''), (''verbosity'', VStr ''INFO''), (''identifier'', VStr ''''),
            (''derConfig'', VDict []), (''standAlone'', VBool True),
            (''steadyStateInitialization'', VBool True), (''allowUnbalancedM'', VBool False)]
        ''VrmsRating'' = None"
proof -
  have r: "get_DER_arguments [(''basic_specs'', VDict [])] [(''derId'', VStr ''50'')] =
       Inr [(''derId'', VStr ''50''), (''verbosity'', VStr ''INFO''), (''identifier'', VStr ''''),
            (''derConfig'', VDict []), (''standAlone'', VBool True),
            (''steadyStateInitialization'', VBool True), (''allowUnbalancedM'', VBool False)]"
    by (simp add: get_DER_arguments_def DER_argument_spec_def string_type_def)
  have s: "map_of DER_argument_spec ''VrmsRating''
      = Some \<lparr>default_value = VNone, arg_type = [T_int, T_float]\<rparr>"
    by (simp add: DER_argument_spec_def)
  from get_DER_arguments_required_absent_omitted[OF s, of "[(''derId'', VStr ''50'')]"
         "[(''basic_specs'', VDict [])]"] r
  show ?thesis by simp
qed

subsection \<open>C6: loading a configuration\<close>

text \<open>
  C6. For a device ID that is not a key of the store, \<^verbatim>\<open>get_DER_config\<close> fails with
  the error whose message lists the IDs of the store, all of them and in the store's
  order (the source raises \<^verbatim>\<open>KeyError\<close>); for a device ID that is a key of the
  store it returns that ID's configuration. The store is what \<^verbatim>\<open>read_json\<close>
  returned for the file.
\<close>

theorem get_DER_config_found_or_listed:
  assumes "read_json configFile = Inr config_dict"
  shows "(derId \<notin> set (map fst config_dict) \<longrightarrow>
            get_DER_config read_json configFile derId =
              Inl (KeyError (Config_not_found derId configFile (map fst config_dict))))
       \<and> (derId \<in> set (map fst config_dict) \<longrightarrow>
            (\<exists>c. map_of config_dict derId = Some c
                 \<and> get_DER_config read_json configFile derId = Inr c))"
proof (cases "map_of config_dict derId")
  case None
  then have "derId \<notin> set (map fst config_dict)"
    by (simp add: map_of_eq_None_iff)
  then show ?thesis
    using assms by (simp add: get_DER_config_def read_config_def bind_error_def)
next
  case (Some c)
  then have "derId \<in> set (map fst config_dict)"
    using map_of_eq_None_iff[of config_dict derId] by simp
  then show ?thesis
    using assms Some by (simp add: get_DER_config_def read_config_def bind_error_def)
qed

theorem get_DER_config_found_or_listed_witness:
  "get_DER_config
     (\<lambda>f. Inr [(''50'', [(''parent_config'', VStr ''250'')]), (''250'', [(''basic_specs'', VDict [])])])
     ''config_der.json'' ''10''
   = Inl (KeyError (Config_not_found ''10'' ''config_der.json'' [''50'', ''250'']))
   \<and> get_DER_config
     (\<lambda>f. Inr [(''50'', [(''parent_config'', VStr ''250'')]), (''250'', [(''basic_specs'', VDict [])])])
     ''config_der.json'' ''50''
   = Inr [(''parent_config'', VStr ''250'')]"
  using
    get_DER_config_found_or_listed[of
      "\<lambda>f. Inr [(''50'', [(''parent_config'', VStr ''250'')]), (''250'', [(''basic_specs'', VDict [])])]"
      "''config_der.json''"
      "[(''50'', [(''parent_config'', VStr ''250'')]), (''250'', [(''basic_specs'', VDict [])])]"
      "''10''"]
    get_DER_config_found_or_listed[of
      "\<lambda>f. Inr [(''50'', [(''parent_config'', VStr ''250'')]), (''250'', [(''basic_specs'', VDict [])])]"
      "''config_der.json''"
      "[(''50'', [(''parent_config'', VStr ''250'')]), (''250'', [(''basic_specs'', VDict [])])]"
      "''50''"]
  by simp

subsection \<open>C2: what the setup does to the loaded configurations\<close>

lemma setup_DER_components_fst:
  "map_of (fst (setup_DER_components comps (c, p))) k =
     (case map_of c k of
        Some v \<Rightarrow> Some v
      | None \<Rightarrow> if k \<in> set comps then Some (VDict []) else None)"
  by (induction comps arbitrary: c p) (auto simp: update_conv' split: option.splits)

lemma setup_DER_components_snd:
  "map_of (snd (setup_DER_components comps (c, p))) k =
     (case map_of p k of
        Some v \<Rightarrow> Some v
      | None \<Rightarrow> if k \<in> set comps then Some (VDict []) else None)"
  by (induction comps arbitrary: c p) (auto simp: update_conv' split: option.splits)

lemma setup_DER_components_id:
  "set comps \<subseteq> fst ` set c \<Longrightarrow> set comps \<subseteq> fst ` set p
   \<Longrightarrow> setup_DER_components comps (c, p) = (c, p)"
  by (induction comps arbitrary: c p) (auto simp: map_of_eq_None_iff)

text \<open>
  C2. The claim: configuration resolution never mutates an input configuration; every
  configuration dictionary that enters the merge and the setup is the same (same keys,
  same values) after \<^verbatim>\<open>get_DER_arguments\<close> and \<^verbatim>\<open>setup_DER\<close> as before.

  \<^verbatim>\<open>get_DER_arguments\<close> only reads its dictionaries. \<^verbatim>\<open>setup_DER\<close> does
  change the dictionary it loaded: for the template components
  \<^verbatim>\<open>basic_specs\<close> and \<^verbatim>\<open>inverter_ratings\<close>, a configuration that has no
  \<^verbatim>\<open>basic_specs\<close> section has one after the loop, and the empty parent
  configuration has both.
\<close>

theorem setup_DER_components_changes_config:
  "setup_DER_components [''basic_specs'', ''inverter_ratings'']
     ([(''inverter_ratings'', VDict [(''Srated'', VFloat 50000)])], [])
   = ([(''inverter_ratings'', VDict [(''Srated'', VFloat 50000)]), (''basic_specs'', VDict [])],
      [(''basic_specs'', VDict []), (''inverter_ratings'', VDict [])])
   \<and> map_of [(''inverter_ratings'', VDict [(''Srated'', VFloat 50000)])] ''basic_specs'' = None
   \<and> map_of (fst (setup_DER_components [''basic_specs'', ''inverter_ratings'']
                    ([(''inverter_ratings'', VDict [(''Srated'', VFloat 50000)])], [])))
        ''basic_specs'' = Some (VDict [])"
  by simp

text \<open>
  C2, as the code has it: the loop of \<^verbatim>\<open>setup_DER\<close> over the template components
  updates the loaded configuration and the parent configuration in place. A key that is
  already there keeps its value; a template component that is missing is added with an
  empty section; no other key appears; and a pair of dictionaries that already hold
  every template component is left as it is. (\<^verbatim>\<open>get_DER_arguments\<close> builds its
  result in a new dictionary and only reads \<^verbatim>\<open>DER_config\<close> and
  \<^verbatim>\<open>kwargs\<close>: in the model they are arguments that are not returned.)
\<close>

theorem setup_DER_components_adds_empty_sections:
  "map_of (fst (setup_DER_components comps (c, p))) k =
     (case map_of c k of
        Some v \<Rightarrow> Some v
      | None \<Rightarrow> if k \<in> set comps then Some (VDict []) else None)
   \<and> map_of (snd (setup_DER_components comps (c, p))) k =
     (case map_of p k of
        Some v \<Rightarrow> Some v
      | None \<Rightarrow> if k \<in> set comps then Some (VDict []) else None)
   \<and> (set comps \<subseteq> fst ` set c \<and> set comps \<subseteq> fst ` set p
        \<longrightarrow> setup_DER_components comps (c, p) = (c, p))"
  using setup_DER_components_fst setup_DER_components_snd setup_DER_components_id by blast

theorem setup_DER_components_adds_empty_sections_witness:
  "map_of (fst (setup_DER_components [''basic_specs'', ''initial_states'']
                  ([(''basic_specs'', VDict [(''n_phases'', VInt 3)])], []))) ''basic_specs''
     = Some (VDict [(''n_phases'', VInt 3)])
   \<and> map_of (fst (setup_DER_components [''basic_specs'', ''initial_states'']
                  ([(''basic_specs'', VDict [(''n_phases'', VInt 3)])], []))) ''initial_states''
     = Some (VDict [])
   \<and> setup_DER_components [''basic_specs'']
        ([(''basic_specs'', VDict [(''n_phases'', VInt 3)])], [(''basic_specs'', VDict [])])
     = ([(''basic_specs'', VDict [(''n_phases'', VInt 3)])], [(''basic_specs'', VDict [])])"
  using
    setup_DER_components_adds_empty_sections[of "[''basic_specs'', ''initial_states'']"
      "[(''basic_specs'', VDict [(''n_phases'', VInt 3)])]" "[]" "''basic_specs''"]
    setup_DER_components_adds_empty_sections[of "[''basic_specs'', ''initial_states'']"
      "[(''basic_specs'', VDict [(''n_phases'', VInt 3)])]" "[]" "''initial_states''"]
    setup_DER_components_adds_empty_sections[of "[''basic_specs'']"
      "[(''basic_specs'', VDict [(''n_phases'', VInt 3)])]" "[(''basic_specs'', VDict [])]"]
  by simp

subsection \<open>C5: the structural check\<close>

lemma py_eq_int_unique: "py_eq_int v a \<Longrightarrow> py_eq_int v b \<Longrightarrow> a = b"
  by (cases v) (auto split: if_splits)

text \<open>
  The check on a configuration whose \<^verbatim>\<open>basic_specs\<close> section gives a phase
  count \<open>np\<close> and a state count \<open>no\<close>: the four comparisons, in the order of the
  source, each with its own message.
\<close>

lemma check_basic_specs_cases:
  assumes "map_of DER_design_template (DER_model_type self) = Some t"
    and "map_of (DER_config self) ''basic_specs'' = Some (VDict bs)"
    and "map_of bs ''n_phases'' = Some np"
    and "map_of bs ''n_ODE'' = Some no"
  shows "check_basic_specs DER_design_template self =
    (if \<not> py_eq_int np (n_phases (basic_specs t))
     then Inl (ValueError (Invalid_n_phases (name self) (parameter_ID self) np
                 (DER_model_type self)))
     else if \<not> py_eq_int np (int (length (phases (basic_specs t))))
     then Inl (ValueError (Phases_found (name self) (parameter_ID self) np
                 (length (phases (basic_specs t)))))
     else if \<not> py_eq_int no (n_ODE (basic_specs t))
     then Inl (ValueError (Invalid_n_ODE (name self) (parameter_ID self) no
                 (DER_model_type self)))
     else if \<not> py_eq_int no (int (length (initial_states t)))
     then Inl (ValueError (States_found (name self) (parameter_ID self) no
                 (length (initial_states t)) (DER_model_type self)))
     else Inr ())"
  using assms by (simp add: check_basic_specs_def bind_error_def getitem_def)

lemma check_basic_specs_Inr_D:
  assumes "map_of DER_design_template (DER_model_type self) = Some t"
    and "check_basic_specs DER_design_template self = Inr u"
  shows "\<exists>bs np no. map_of (DER_config self) ''basic_specs'' = Some (VDict bs)
      \<and> map_of bs ''n_phases'' = Some np \<and> map_of bs ''n_ODE'' = Some no"
proof -
  from assms obtain v where v: "map_of (DER_config self) ''basic_specs'' = Some v"
    by (auto simp: check_basic_specs_def bind_error_def getitem_def split: option.splits)
  with assms obtain bs where bs: "v = VDict bs"
    by (cases v) (auto simp: check_basic_specs_def bind_error_def getitem_def)
  with assms v obtain np where np: "map_of bs ''n_phases'' = Some np"
    by (auto simp: check_basic_specs_def bind_error_def getitem_def split: option.splits)
  with assms v bs obtain no where "map_of bs ''n_ODE'' = Some no"
    by (auto simp: check_basic_specs_def bind_error_def getitem_def
             split: option.splits if_splits)
  with v bs np show ?thesis by blast
qed

text \<open>
  C5. For a model type that has a template, \<^verbatim>\<open>check_basic_specs\<close> succeeds if and
  only if the configuration has a phase count and a state count in its
  \<^verbatim>\<open>basic_specs\<close> section, the phase count equals the template's declared phase
  count, the template's list of phase names has that length, the state count equals the
  template's declared state count, and the template's initial-state vector has that
  length. When a field does not match, the error is the one of the first comparison
  that fails, in the order phase count, phase names, state count, initial states, and it
  carries the values of that field. A model type without a template raises the error for
  an invalid model class.
\<close>

theorem check_basic_specs_succeeds_iff:
  "(map_of DER_design_template (DER_model_type self) = None \<longrightarrow>
      check_basic_specs DER_design_template self =
        Inl (ValueError (Invalid_model_class (name self) (DER_model_type self))))
   \<and> (\<forall>t. map_of DER_design_template (DER_model_type self) = Some t \<longrightarrow>
        (check_basic_specs DER_design_template self = Inr () \<longleftrightarrow>
           (\<exists>bs np no.
              map_of (DER_config self) ''basic_specs'' = Some (VDict bs)
              \<and> map_of bs ''n_phases'' = Some np \<and> map_of bs ''n_ODE'' = Some no
              \<and> py_eq_int np (n_phases (basic_specs t))
              \<and> int (length (phases (basic_specs t))) = n_phases (basic_specs t)
              \<and> py_eq_int no (n_ODE (basic_specs t))
              \<and> int (length (initial_states t)) = n_ODE (basic_specs t)))
        \<and> (\<forall>bs np no.
              map_of (DER_config self) ''basic_specs'' = Some (VDict bs)
              \<and> map_of bs ''n_phases'' = Some np \<and> map_of bs ''n_ODE'' = Some no \<longrightarrow>
              (\<not> py_eq_int np (n_phases (basic_specs t)) \<longrightarrow>
                 check_basic_specs DER_design_template self =
                   Inl (ValueError (Invalid_n_phases (name self) (parameter_ID self) np
                          (DER_model_type self))))
              \<and> (py_eq_int np (n_phases (basic_specs t))
                 \<and> int (length (phases (basic_specs t))) \<noteq> n_phases (basic_specs t) \<longrightarrow>
                 check_basic_specs DER_design_template self =
                   Inl (ValueError (Phases_found (name self) (parameter_ID self) np
                          (length (phases (basic_specs t))))))
              \<and> (py_eq_int np (n_phases (basic_specs t))
                 \<and> int (length (phases (basic_specs t))) = n_phases (basic_specs t)
                 \<and> \<not> py_eq_int no (n_ODE (basic_specs t)) \<longrightarrow>
                 check_basic_specs DER_design_template self =
                   Inl (ValueError (Invalid_n_ODE (name self) (parameter_ID self) no
                          (DER_model_type self))))
              \<and> (py_eq_int np (n_phases (basic_specs t))
                 \<and> int (length (phases (basic_specs t))) = n_phases (basic_specs t)
                 \<and> py_eq_int no (n_ODE (basic_specs t))
                 \<and> int (length (initial_states t)) \<noteq> n_ODE (basic_specs t) \<longrightarrow>
                 check_basic_specs DER_design_template self =
                   Inl (ValueError (States_found (name self) (parameter_ID self) no
                          (length (initial_states t)) (DER_model_type self))))))"
proof (intro conjI allI impI)
  assume "map_of DER_design_template (DER_model_type self) = None"
  then show "check_basic_specs DER_design_template self =
        Inl (ValueError (Invalid_model_class (name self) (DER_model_type self)))"
    by (simp add: check_basic_specs_def)
next
  fix t
  assume t: "map_of DER_design_template (DER_model_type self) = Some t"
  show "check_basic_specs DER_design_template self = Inr () \<longleftrightarrow>
           (\<exists>bs np no.
              map_of (DER_config self) ''basic_specs'' = Some (VDict bs)
              \<and> map_of bs ''n_phases'' = Some np \<and> map_of bs ''n_ODE'' = Some no
              \<and> py_eq_int np (n_phases (basic_specs t))
              \<and> int (length (phases (basic_specs t))) = n_phases (basic_specs t)
              \<and> py_eq_int no (n_ODE (basic_specs t))
              \<and> int (length (initial_states t)) = n_ODE (basic_specs t))"
    (is "?L \<longleftrightarrow> ?R")
  proof
    assume l: ?L
    from check_basic_specs_Inr_D[OF t l] obtain bs np no where
      c: "map_of (DER_config self) ''basic_specs'' = Some (VDict bs)"
         "map_of bs ''n_phases'' = Some np" "map_of bs ''n_ODE'' = Some no"
      by blast
    from l check_basic_specs_cases[OF t c] have
      e: "py_eq_int np (n_phases (basic_specs t))"
         "py_eq_int np (int (length (phases (basic_specs t))))"
         "py_eq_int no (n_ODE (basic_specs t))"
         "py_eq_int no (int (length (initial_states t)))"
      by (auto split: if_splits)
    from e have "int (length (phases (basic_specs t))) = n_phases (basic_specs t)"
      "int (length (initial_states t)) = n_ODE (basic_specs t)"
      using py_eq_int_unique by blast+
    with c e show ?R by blast
  next
    assume ?R
    then obtain bs np no where
      c: "map_of (DER_config self) ''basic_specs'' = Some (VDict bs)"
         "map_of bs ''n_phases'' = Some np" "map_of bs ''n_ODE'' = Some no"
      and e: "py_eq_int np (n_phases (basic_specs t))"
         "int (length (phases (basic_specs t))) = n_phases (basic_specs t)"
         "py_eq_int no (n_ODE (basic_specs t))"
         "int (length (initial_states t)) = n_ODE (basic_specs t)"
      by blast
    show ?L using check_basic_specs_cases[OF t c] e by simp
  qed
next
  fix t bs np no
  assume t: "map_of DER_design_template (DER_model_type self) = Some t"
    and "map_of (DER_config self) ''basic_specs'' = Some (VDict bs)
         \<and> map_of bs ''n_phases'' = Some np \<and> map_of bs ''n_ODE'' = Some no"
  then have c: "map_of (DER_config self) ''basic_specs'' = Some (VDict bs)"
         "map_of bs ''n_phases'' = Some np" "map_of bs ''n_ODE'' = Some no"
    by simp_all
  note cs = check_basic_specs_cases[OF t c]
  {
    assume "\<not> py_eq_int np (n_phases (basic_specs t))"
    then show "check_basic_specs DER_design_template self =
                   Inl (ValueError (Invalid_n_phases (name self) (parameter_ID self) np
                          (DER_model_type self)))"
      using cs by simp
  next
    assume "py_eq_int np (n_phases (basic_specs t))
                 \<and> int (length (phases (basic_specs t))) \<noteq> n_phases (basic_specs t)"
    then have "py_eq_int np (n_phases (basic_specs t))"
      "\<not> py_eq_int np (int (length (phases (basic_specs t))))"
      using py_eq_int_unique by blast+
    then show "check_basic_specs DER_design_template self =
                   Inl (ValueError (Phases_found (name self) (parameter_ID self) np
                          (length (phases (basic_specs t)))))"
      using cs by simp
  next
    assume "py_eq_int np (n_phases (basic_specs t))
                 \<and> int (length (phases (basic_specs t))) = n_phases (basic_specs t)
                 \<and> \<not> py_eq_int no (n_ODE (basic_specs t))"
    then show "check_basic_specs DER_design_template self =
                   Inl (ValueError (Invalid_n_ODE (name self) (parameter_ID self) no
                          (DER_model_type self)))"
      using cs by simp
  next
    assume a: "py_eq_int np (n_phases (basic_specs t))
                 \<and> int (length (phases (basic_specs t))) = n_phases (basic_specs t)
                 \<and> py_eq_int no (n_ODE (basic_specs t))
                 \<and> int (length (initial_states t)) \<noteq> n_ODE (basic_specs t)"
    then have "\<not> py_eq_int no (int (length (initial_states t)))"
      using py_eq_int_unique by blast
    with a show "check_basic_specs DER_design_template self =
                   Inl (ValueError (States_found (name self) (parameter_ID self) no
                          (length (initial_states t)) (DER_model_type self)))"
      using cs by simp
  }
qed

theorem check_basic_specs_succeeds_iff_witness:
  "check_basic_specs
     [(''SolarPVDERThreePhase'',
       \<lparr>basic_specs = \<lparr>n_phases = 3, phases = [''a'', ''b'', ''c''], n_ODE = 2\<rparr>,
        initial_states = [VFloat 0, VFloat 0]\<rparr>)]
     \<lparr>name = ''PVDER_1'', parameter_ID = ''50'', DER_model_type = ''SolarPVDERThreePhase'',
      DER_config = [(''basic_specs'', VDict [(''n_phases'', VInt 3), (''n_ODE'', VInt 2)])]\<rparr>
   = Inr ()
   \<and> check_basic_specs
     [(''SolarPVDERThreePhase'',
       \<lparr>basic_specs = \<lparr>n_phases = 3, phases = [''a'', ''b'', ''c''], n_ODE = 2\<rparr>,
        initial_states = [VFloat 0, VFloat 0]\<rparr>)]
     \<lparr>name = ''PVDER_1'', parameter_ID = ''50'', DER_model_type = ''SolarPVDERThreePhase'',
      DER_config = [(''basic_specs'', VDict [(''n_phases'', VInt 3), (''n_ODE'', VInt 5)])]\<rparr>
   = Inl (ValueError (Invalid_n_ODE ''PVDER_1'' ''50'' (VInt 5) ''SolarPVDERThreePhase''))
   \<and> check_basic_specs
     [(''SolarPVDERThreePhase'',
       \<lparr>basic_specs = \<lparr>n_phases = 3, phases = [''a'', ''b'', ''c''], n_ODE = 2\<rparr>,
        initial_states = [VFloat 0, VFloat 0]\<rparr>)]
     \<lparr>name = ''PVDER_1'', parameter_ID = ''50'', DER_model_type = ''SolarPVDERSinglePhase'',
      DER_config = [(''basic_specs'', VDict [(''n_phases'', VInt 1), (''n_ODE'', VInt 2)])]\<rparr>
   = Inl (ValueError (Invalid_model_class ''PVDER_1'' ''SolarPVDERSinglePhase''))"
  using
    check_basic_specs_succeeds_iff[of
      "[(''SolarPVDERThreePhase'',
       \<lparr>basic_specs = \<lparr>n_phases = 3, phases = [''a'', ''b'', ''c''], n_ODE = 2\<rparr>,
        initial_states = [VFloat 0, VFloat 0]\<rparr>)]"
      "\<lparr>name = ''PVDER_1'', parameter_ID = ''50'', DER_model_type = ''SolarPVDERThreePhase'',
      DER_config = [(''basic_specs'', VDict [(''n_phases'', VInt 3), (''n_ODE'', VInt 2)])]\<rparr>"]
    check_basic_specs_succeeds_iff[of
      "[(''SolarPVDERThreePhase'',
       \<lparr>basic_specs = \<lparr>n_phases = 3, phases = [''a'', ''b'', ''c''], n_ODE = 2\<rparr>,
        initial_states = [VFloat 0, VFloat 0]\<rparr>)]"
      "\<lparr>name = ''PVDER_1'', parameter_ID = ''50'', DER_model_type = ''SolarPVDERThreePhase'',
      DER_config = [(''basic_specs'', VDict [(''n_phases'', VInt 3), (''n_ODE'', VInt 5)])]\<rparr>"]
    check_basic_specs_succeeds_iff[of
      "[(''SolarPVDERThreePhase'',
       \<lparr>basic_specs = \<lparr>n_phases = 3, phases = [''a'', ''b'', ''c''], n_ODE = 2\<rparr>,
        initial_states = [VFloat 0, VFloat 0]\<rparr>)]"
      "\<lparr>name = ''PVDER_1'', parameter_ID = ''50'', DER_model_type = ''SolarPVDERSinglePhase'',
      DER_config = [(''basic_specs'', VDict [(''n_phases'', VInt 1), (''n_ODE'', VInt 2)])]\<rparr>"]
  by simp

section \<open>Properties of the PV module\<close>

subsection \<open>Frames and results of the methods\<close>



lemma exp_max_less_float_overflow: "exp_max < float_overflow"
  by (simp add: exp_max_def float_overflow_def)

lemma exponent_divisor_nonzero:
  "exponent_divisor self \<noteq> 0
   \<Longrightarrow> exponent_divisor self = PVModule_k * Tactual self * PVModule_A * Ns self"
  by (simp add: exponent_divisor_def split: if_splits)

lemma exponent_divisor_frame:
  "Tactual s = Tactual s' \<Longrightarrow> Ns s = Ns s' \<Longrightarrow> exponent_divisor s = exponent_divisor s'"
  by (simp add: exponent_divisor_def)

lemma exponent_finite:
  assumes "exponent_divisor self \<noteq> 0"
    and "PVModule_q * V / exponent_divisor self < float_overflow"
  shows "exponent c V self = Inr (Fin (PVModule_q * V / exponent_divisor self))"
  using assms by (simp add: exponent_def xtruediv_def bind_error_def)

text \<open>
  The call returns the finite power of the formula when the divisor of the exponent is
  not zero, the exponent is within the range of \<^verbatim>\<open>math.exp\<close> and
  \<^verbatim>\<open>Sbase\<close> is not zero.
\<close>

lemma Ppv_calc_returns:
  assumes "exponent_divisor self \<noteq> 0"
    and "PVModule_q * V / exponent_divisor self \<le> exp_max"
    and "Sbase' \<noteq> 0"
  shows "Ppv_calc Sbase' c V self =
    Inr (Fin (max 0 (Ipv_at self V * V) / Sbase'),
         self\<lparr>Iph := Some (Iph_calc self), Ipv := Some (Fin (Ipv_at self V))\<rparr>)"
proof -
  have x: "exponent c V (self\<lparr>Iph := Some (Iph_calc self)\<rparr>) =
      Inr (Fin (PVModule_q * V / exponent_divisor self))"
    using exponent_finite[of "self\<lparr>Iph := Some (Iph_calc self)\<rparr>" V c]
      assms(1,2) exp_max_less_float_overflow
      exponent_divisor_frame[of "self\<lparr>Iph := Some (Iph_calc self)\<rparr>" self]
    by simp
  have d: "exponent_divisor self = PVModule_k * Tactual self * PVModule_A * Ns self"
    using assms(1) by (rule exponent_divisor_nonzero)
  show ?thesis
    unfolding Ppv_calc_def Let_def x
    using assms(2,3)
    by (simp add: bind_error_def xtruediv_def Ipv_at_def d max_def not_less)
qed

lemma Ppv_calc_overflow:
  assumes "exponent_divisor self \<noteq> 0"
    and "exp_max < PVModule_q * V / exponent_divisor self"
    and "PVModule_q * V / exponent_divisor self < float_overflow"
  shows "Ppv_calc Sbase' c V self = Inl OverflowError"
proof -
  have x: "exponent c V (self\<lparr>Iph := Some (Iph_calc self)\<rparr>) =
      Inr (Fin (PVModule_q * V / exponent_divisor self))"
    using exponent_finite[of "self\<lparr>Iph := Some (Iph_calc self)\<rparr>" V c] assms(1,3)
      exponent_divisor_frame[of "self\<lparr>Iph := Some (Iph_calc self)\<rparr>" self]
    by simp
  show ?thesis
    unfolding Ppv_calc_def Let_def x using assms(2) by (simp add: bind_error_def)
qed

lemma Ppv_calc_zero_division:
  assumes "exponent_divisor self = 0"
    and "c = Python_number" and "Tactual_class self = Python_number"
  shows "Ppv_calc Sbase' c V self = Inl ZeroDivisionError"
  using assms exponent_divisor_frame[of "self\<lparr>Iph := Some (Iph_calc self)\<rparr>" self]
  by (simp add: Ppv_calc_def Let_def exponent_def xtruediv_def bind_error_def join_class_def)

lemma Ppv_calc_numpy_zero_divisor_at_zero:
  assumes "exponent_divisor self = 0"
    and "join_class c (Tactual_class self) = Numpy_scalar"
    and "Sbase' \<noteq> 0"
  shows "Ppv_calc Sbase' c 0 self =
           Inr (Fin 0, self\<lparr>Iph := Some (Iph_calc self), Ipv := Some NaN\<rparr>)"
  using assms exponent_divisor_frame[of "self\<lparr>Iph := Some (Iph_calc self)\<rparr>" self]
  by (simp add: Ppv_calc_def Let_def exponent_def xtruediv_def bind_error_def)

text \<open>A call that returns has only assigned the photocurrent and the panel current.\<close>

lemma Ppv_calc_state:
  "Ppv_calc b c V s = Inr (p, s')
   \<Longrightarrow> \<exists>ipv. s' = s\<lparr>Iph := Some (Iph_calc s), Ipv := Some ipv\<rparr>"
  by (auto simp: Ppv_calc_def Let_def bind_error_def split: sum.splits if_splits)

text \<open>
  What the call raises or returns depends on the parameters, the insolation and the
  temperature only.
\<close>

lemma Ppv_calc_frame:
  assumes "Np s = Np s'" "Ns s = Ns s'" "Tactual s = Tactual s'" "Sinsol s = Sinsol s'"
    and "Tactual_class s = Tactual_class s'" "Sinsol_class s = Sinsol_class s'"
  shows "map_sum id fst (Ppv_calc b c V s) = map_sum id fst (Ppv_calc b c V s')"
proof -
  have i: "Iph_calc s = Iph_calc s'"
    using assms by (simp add: Iph_calc_def)
  have x: "exponent c V (s\<lparr>Iph := Some (Iph_calc s')\<rparr>) =
           exponent c V (s'\<lparr>Iph := Some (Iph_calc s')\<rparr>)"
    using assms by (simp add: exponent_def exponent_divisor_def)
  show ?thesis
    unfolding Ppv_calc_def Let_def i x
    using assms
    by (simp add: bind_error_def Iph_class_def split: sum.splits)
qed

lemma Iph_calc_frame:
  "Tactual s = Tactual s' \<Longrightarrow> Sinsol s = Sinsol s' \<Longrightarrow> Iph_calc s = Iph_calc s'"
  by (simp add: Iph_calc_def)

lemma Vdcmpp_residual_frame:
  "Np s = Np s' \<Longrightarrow> Ns s = Ns s' \<Longrightarrow> Tactual s = Tactual s'
   \<Longrightarrow> Vdcmpp_residual s = Vdcmpp_residual s'"
  by (intro ext) (simp add: Vdcmpp_residual_def)

lemma Vdcmpp_fst_frame:
  "Np s = Np s' \<Longrightarrow> Ns s = Ns s' \<Longrightarrow> Tactual s = Tactual s' \<Longrightarrow> Sinsol s = Sinsol s'
   \<Longrightarrow> Vdcmpp0 s = Vdcmpp0 s' \<Longrightarrow> fst (Vdcmpp e s) = fst (Vdcmpp e s')"
  using Vdcmpp_residual_frame[of "s\<lparr>Iph := Some (Iph_calc s)\<rparr>"
          "s'\<lparr>Iph := Some (Iph_calc s')\<rparr>"]
  by (simp add: Vdcmpp_def Let_def Iph_calc_def)

lemma Vdcmpp_snd: "snd (Vdcmpp e self) = self\<lparr>Iph := Some (Iph_calc self)\<rparr>"
  by (simp add: Vdcmpp_def Let_def)

lemma Vdcmpp_at_frame:
  "Np s = Np s' \<Longrightarrow> Ns s = Ns s' \<Longrightarrow> Tactual s = Tactual s' \<Longrightarrow> Vdcmpp0 s = Vdcmpp0 s'
   \<Longrightarrow> Vdcmpp_at e s = Vdcmpp_at e s'"
  unfolding Vdcmpp_at_def by (intro ext Vdcmpp_fst_frame) simp_all

lemma Ppvmpp_at_frame:
  assumes "Np s = Np s'" "Ns s = Ns s'" "Tactual s = Tactual s'" "Vdcmpp0 s = Vdcmpp0 s'"
    and "Tactual_class s = Tactual_class s'"
  shows "Ppvmpp_at e s = Ppvmpp_at e s'"
proof
  fix S
  have v: "Vdcmpp_at e s S = Vdcmpp_at e s' S"
    using Vdcmpp_at_frame[OF assms(1-4)] by simp
  have "map_sum id fst (Ppv_calc (Sbase e) Numpy_scalar (Vdcmpp_at e s' S)
            (s\<lparr>Sinsol := S, Sinsol_class := Numpy_scalar\<rparr>)) =
        map_sum id fst (Ppv_calc (Sbase e) Numpy_scalar (Vdcmpp_at e s' S)
            (s'\<lparr>Sinsol := S, Sinsol_class := Numpy_scalar\<rparr>))"
    using assms by (intro Ppv_calc_frame) simp_all
  then show "Ppvmpp_at e s S = Ppvmpp_at e s' S"
    unfolding Ppvmpp_at_def v
    by (auto split: sum.splits)
qed

text \<open>One round of the loop of the fit.\<close>

lemma fit_MPP_loop_step:
  "fit_MPP_loop e (S # Ss) (self, xs, ys, ps) =
     bind_error
       (Ppv_calc (Sbase e) Numpy_scalar (Vdcmpp_at e self S)
          (self\<lparr>Sinsol := S, Sinsol_class := Numpy_scalar,
                Iph := Some (Iph_calc (self\<lparr>Sinsol := S\<rparr>))\<rparr>))
       (\<lambda>(Ppv, s). fit_MPP_loop e Ss
           (s, xs @ [S], ys @ [Vdcmpp_at e self S], ps @ [xtimes Ppv (Fin (Sbase e))]))"
proof -
  let ?s1 = "self\<lparr>Sinsol := S, Sinsol_class := Numpy_scalar\<rparr>"
  let ?s2 = "self\<lparr>Sinsol := S, Sinsol_class := Numpy_scalar,
                   Iph := Some (Iph_calc (self\<lparr>Sinsol := S\<rparr>))\<rparr>"
  define v where "v = Vdcmpp_at e self S"
  have i: "Iph_calc ?s1 = Iph_calc (self\<lparr>Sinsol := S\<rparr>)"
    by (rule Iph_calc_frame) simp_all
  have "fst (Vdcmpp e ?s1) = v"
    unfolding v_def Vdcmpp_at_def by (rule Vdcmpp_fst_frame) simp_all
  then have v1: "Vdcmpp e ?s1 = (v, ?s2)"
    using Vdcmpp_snd[of e ?s1] i by (simp add: prod_eq_iff)
  have "fst (Vdcmpp e ?s2) = v"
    unfolding v_def Vdcmpp_at_def by (rule Vdcmpp_fst_frame) simp_all
  moreover have "Iph_calc ?s2 = Iph_calc (self\<lparr>Sinsol := S\<rparr>)"
    by (rule Iph_calc_frame) simp_all
  ultimately have v2: "Vdcmpp e ?s2 = (v, ?s2)"
    using Vdcmpp_snd[of e ?s2] by (simp add: prod_eq_iff)
  show ?thesis
    unfolding v_def[symmetric]
    by (simp only: fit_MPP_loop.simps Let_def v1 v2 prod.case)
qed

text \<open>
  When the loop returns, it has appended one entry per sample to each list: the sample,
  the MPP voltage and the power there. It leaves the parameters, the temperature, the
  number of fit points and the coefficients of the instance as they were.
\<close>

lemma fit_MPP_loop_Inr:
  "fit_MPP_loop e Ss (self, xs, ys, ps) = Inr (self', xs', ys', ps')
   \<Longrightarrow> xs' = xs @ Ss \<and> ys' = ys @ map (Vdcmpp_at e self) Ss
       \<and> ps' = ps @ map (Ppvmpp_at e self) Ss
       \<and> Tactual self' = Tactual self \<and> Tactual_class self' = Tactual_class self
       \<and> MPP_fit_points self' = MPP_fit_points self
       \<and> module_parameter.truncate self' = module_parameter.truncate self
       \<and> z self' = z self"
proof (induction Ss arbitrary: self xs ys ps)
  case Nil
  then show ?case by simp
next
  case (Cons S Ss)
  let ?s1 = "self\<lparr>Sinsol := S, Sinsol_class := Numpy_scalar\<rparr>"
  let ?s2 = "self\<lparr>Sinsol := S, Sinsol_class := Numpy_scalar,
                   Iph := Some (Iph_calc (self\<lparr>Sinsol := S\<rparr>))\<rparr>"
  define v where "v = Vdcmpp_at e self S"
  from Cons.prems obtain p s3 where
    p: "Ppv_calc (Sbase e) Numpy_scalar v ?s2 = Inr (p, s3)"
    and r: "fit_MPP_loop e Ss (s3, xs @ [S], ys @ [v], ps @ [xtimes p (Fin (Sbase e))]) =
              Inr (self', xs', ys', ps')"
    unfolding fit_MPP_loop_step v_def[symmetric]
    by (auto simp: bind_error_def split: sum.splits)
  from Ppv_calc_state[OF p] obtain ipv where
    s3: "s3 = ?s2\<lparr>Iph := Some (Iph_calc ?s2), Ipv := Some ipv\<rparr>"
    by blast
  have f3: "Tactual s3 = Tactual self" "Tactual_class s3 = Tactual_class self"
     "Ns s3 = Ns self" "Np s3 = Np self" "Vdcmpp0 s3 = Vdcmpp0 self"
     "MPP_fit_points s3 = MPP_fit_points self" "z s3 = z self"
     "module_parameter.truncate s3 = module_parameter.truncate self"
    by (simp_all add: s3 module_parameter.truncate_def)
  have nx: "Vdcmpp_at e s3 = Vdcmpp_at e self"
    by (rule Vdcmpp_at_frame) (simp_all add: f3)
  have px: "Ppvmpp_at e s3 = Ppvmpp_at e self"
    by (rule Ppvmpp_at_frame) (simp_all add: f3)
  have "map_sum id fst (Ppv_calc (Sbase e) Numpy_scalar v ?s1) =
        map_sum id fst (Ppv_calc (Sbase e) Numpy_scalar v ?s2)"
    by (rule Ppv_calc_frame) simp_all
  with p have pv: "xtimes p (Fin (Sbase e)) = Ppvmpp_at e self S"
    unfolding Ppvmpp_at_def v_def[symmetric]
    by (auto split: sum.splits)
  from Cons.IH[OF r] f3 nx px pv show ?case
    by (simp add: v_def)
qed

text \<open>
  The loop returns when the divisor of the exponent and \<^verbatim>\<open>Sbase\<close> are not zero
  and the exponent at the MPP voltage of every sample is within the range of
  \<^verbatim>\<open>math.exp\<close>.
\<close>

lemma fit_MPP_loop_returns:
  assumes "exponent_divisor self \<noteq> 0" and "Sbase e \<noteq> 0"
    and "\<forall>S\<in>set Ss. PVModule_q * Vdcmpp_at e self S / exponent_divisor self \<le> exp_max"
  shows "\<exists>r. fit_MPP_loop e Ss (self, xs, ys, ps) = Inr r"
  using assms
proof (induction Ss arbitrary: self xs ys ps)
  case Nil
  then show ?case by simp
next
  case (Cons S Ss)
  let ?s2 = "self\<lparr>Sinsol := S, Sinsol_class := Numpy_scalar,
                   Iph := Some (Iph_calc (self\<lparr>Sinsol := S\<rparr>))\<rparr>"
  define v where "v = Vdcmpp_at e self S"
  have d2: "exponent_divisor ?s2 = exponent_divisor self"
    by (rule exponent_divisor_frame) simp_all
  have c: "exponent_divisor ?s2 \<noteq> 0" "PVModule_q * v / exponent_divisor ?s2 \<le> exp_max"
    using Cons.prems by (simp_all add: d2 v_def)
  define s3 where "s3 = ?s2\<lparr>Iph := Some (Iph_calc ?s2), Ipv := Some (Fin (Ipv_at ?s2 v))\<rparr>"
  define p where "p = Fin (max 0 (Ipv_at ?s2 v * v) / Sbase e)"
  have p: "Ppv_calc (Sbase e) Numpy_scalar v ?s2 = Inr (p, s3)"
    unfolding p_def s3_def by (rule Ppv_calc_returns[OF c Cons.prems(2)])
  have step: "fit_MPP_loop e (S # Ss) (self, xs, ys, ps) =
      fit_MPP_loop e Ss (s3, xs @ [S], ys @ [v], ps @ [xtimes p (Fin (Sbase e))])"
    unfolding fit_MPP_loop_step v_def[symmetric] p by (simp add: bind_error_def)
  have d3: "exponent_divisor s3 = exponent_divisor self"
    by (rule exponent_divisor_frame) (simp_all add: s3_def)
  have nx: "Vdcmpp_at e s3 = Vdcmpp_at e self"
    by (rule Vdcmpp_at_frame) (simp_all add: s3_def)
  have "\<exists>r. fit_MPP_loop e Ss (s3, xs @ [S], ys @ [v], ps @ [xtimes p (Fin (Sbase e))]) = Inr r"
    using Cons.prems by (intro Cons.IH) (simp_all add: d3 nx)
  then show ?case unfolding step .
qed

lemma linspace_S_min_S_max:
  "linspace S_min S_max 11 = [10, 19, 28, 37, 46, 55, 64, 73, 82, 91, 100]"
  by (simp add: linspace_def S_min_def S_max_def upt_rec)

text \<open>The fit, unfolded up to its loop.\<close>

lemma fit_MPP_poly_unfold:
  "fit_MPP_poly e self =
     (if \<not> logger_callable e then Inl (TypeError Not_callable)
      else bind_error
        (fit_MPP_loop e [10, 19, 28, 37, 46, 55, 64, 73, 82, 91, 100]
           (self\<lparr>Tactual := 298.15, Tactual_class := Python_number, MPP_fit_points := 10\<rparr>,
            [], [], []))
        (\<lambda>(s, Sinsol_list, Vdcmpp_list, Ppvmpp_list).
            if length (polyfit e Sinsol_list Vdcmpp_list 3) < 4
            then Inl (IndexError Index_out_of_range)
            else Inr (s\<lparr>z := Some (polyfit e Sinsol_list Vdcmpp_list 3)\<rparr>)))"
proof -
  have "linspace S_min S_max (10 + 1) = [10, 19, 28, 37, 46, 55, 64, 73, 82, 91, 100]"
    using linspace_S_min_S_max by simp
  then show ?thesis
    by (simp add: fit_MPP_poly_def Let_def del: fit_MPP_loop.simps)
qed

text \<open>
  When the fit returns, the loop has returned on the eleven samples at 298.15 K, the
  coefficients are what \<^verbatim>\<open>polyfit\<close> gave for the samples and their MPP
  voltages, and nothing else of the loop's instance has changed.
\<close>

lemma fit_MPP_poly_Inr:
  assumes "fit_MPP_poly e self = Inr self'"
  shows "\<exists>s2.
      fit_MPP_loop e [10, 19, 28, 37, 46, 55, 64, 73, 82, 91, 100]
          (self\<lparr>Tactual := 298.15, Tactual_class := Python_number, MPP_fit_points := 10\<rparr>,
           [], [], []) =
        Inr (s2, [10, 19, 28, 37, 46, 55, 64, 73, 82, 91, 100],
             map (Vdcmpp_at e (self\<lparr>Tactual := 298.15\<rparr>))
               [10, 19, 28, 37, 46, 55, 64, 73, 82, 91, 100],
             map (Ppvmpp_at e (self\<lparr>Tactual := 298.15, Tactual_class := Python_number\<rparr>))
               [10, 19, 28, 37, 46, 55, 64, 73, 82, 91, 100])
      \<and> self' = s2\<lparr>z := Some (polyfit e [10, 19, 28, 37, 46, 55, 64, 73, 82, 91, 100]
                  (map (Vdcmpp_at e (self\<lparr>Tactual := 298.15\<rparr>))
                     [10, 19, 28, 37, 46, 55, 64, 73, 82, 91, 100]) 3)\<rparr>
      \<and> 4 \<le> length (polyfit e [10, 19, 28, 37, 46, 55, 64, 73, 82, 91, 100]
                  (map (Vdcmpp_at e (self\<lparr>Tactual := 298.15\<rparr>))
                     [10, 19, 28, 37, 46, 55, 64, 73, 82, 91, 100]) 3)
      \<and> Tactual s2 = 298.15 \<and> Tactual_class s2 = Python_number \<and> MPP_fit_points s2 = 10
      \<and> module_parameter.truncate s2 = module_parameter.truncate self"
proof -
  define s1 where
    "s1 = self\<lparr>Tactual := 298.15, Tactual_class := Python_number, MPP_fit_points := 10\<rparr>"
  define Ss :: "real list" where "Ss = [10, 19, 28, 37, 46, 55, 64, 73, 82, 91, 100]"
  from assms obtain s2 xs ys ps where
    l: "fit_MPP_loop e Ss (s1, [], [], []) = Inr (s2, xs, ys, ps)"
    and r: "\<not> length (polyfit e xs ys 3) < 4" "self' = s2\<lparr>z := Some (polyfit e xs ys 3)\<rparr>"
    unfolding fit_MPP_poly_unfold s1_def[symmetric] Ss_def[symmetric]
    by (auto simp: bind_error_def split: if_splits sum.splits)
  from fit_MPP_loop_Inr[OF l] have
    c: "xs = Ss" "ys = map (Vdcmpp_at e s1) Ss" "ps = map (Ppvmpp_at e s1) Ss"
    and f: "Tactual s2 = Tactual s1" "Tactual_class s2 = Tactual_class s1"
      "MPP_fit_points s2 = MPP_fit_points s1"
      "module_parameter.truncate s2 = module_parameter.truncate s1"
    by simp_all
  have v: "Vdcmpp_at e s1 = Vdcmpp_at e (self\<lparr>Tactual := 298.15\<rparr>)"
    by (rule Vdcmpp_at_frame) (simp_all add: s1_def)
  have w: "Ppvmpp_at e s1 =
           Ppvmpp_at e (self\<lparr>Tactual := 298.15, Tactual_class := Python_number\<rparr>)"
    by (rule Ppvmpp_at_frame) (simp_all add: s1_def)
  have t: "Tactual s1 = 298.15" "Tactual_class s1 = Python_number" "MPP_fit_points s1 = 10"
    "module_parameter.truncate s1 = module_parameter.truncate self"
    by (simp_all add: s1_def module_parameter.truncate_def)
  show ?thesis
    apply (rule exI[of _ s2])
    using l r c f v w t unfolding s1_def Ss_def
    apply (simp del: fit_MPP_loop.simps)
    done
qed

lemma fit_MPP_poly_returns:
  assumes "logger_callable e" and "Sbase e \<noteq> 0"
    and "exponent_divisor (self\<lparr>Tactual := 298.15\<rparr>) \<noteq> 0"
    and "\<forall>S\<in>set [10, 19, 28, 37, 46, 55, 64, 73, 82, 91, 100].
           PVModule_q * Vdcmpp_at e (self\<lparr>Tactual := 298.15\<rparr>) S
             / exponent_divisor (self\<lparr>Tactual := 298.15\<rparr>) \<le> exp_max"
    and "\<And>x y. 4 \<le> length (polyfit e x y 3)"
  shows "\<exists>self'. fit_MPP_poly e self = Inr self'"
proof -
  define s1 where
    "s1 = self\<lparr>Tactual := 298.15, Tactual_class := Python_number, MPP_fit_points := 10\<rparr>"
  define Ss :: "real list" where "Ss = [10, 19, 28, 37, 46, 55, 64, 73, 82, 91, 100]"
  have d: "exponent_divisor s1 = exponent_divisor (self\<lparr>Tactual := 298.15\<rparr>)"
    by (rule exponent_divisor_frame) (simp_all add: s1_def)
  have v: "Vdcmpp_at e s1 = Vdcmpp_at e (self\<lparr>Tactual := 298.15\<rparr>)"
    by (rule Vdcmpp_at_frame) (simp_all add: s1_def)
  have "\<exists>r. fit_MPP_loop e Ss (s1, [], [], []) = Inr r"
    using assms(2,3,4) unfolding Ss_def[symmetric]
    by (intro fit_MPP_loop_returns) (simp_all add: d v)
  then obtain s2 xs ys ps where "fit_MPP_loop e Ss (s1, [], [], []) = Inr (s2, xs, ys, ps)"
    by (metis prod_cases4)
  then show ?thesis
    unfolding fit_MPP_poly_unfold s1_def[symmetric] Ss_def[symmetric]
    using assms(1) assms(5)[of xs ys]
    by (simp add: bind_error_def not_less)
qed

subsection \<open>C8: the photocurrent\<close>

text \<open>
  C8. For every insolation and temperature of the instance, \<^verbatim>\<open>Iph_calc\<close> returns
  \<open>(Iscr + Kv * (T - T0)) * (S / 100)\<close>. At insolation 100 and temperature \<open>T0\<close>
  (298.15 K) it returns \<open>Iscr\<close>, which is 8.03. The insolation is not clamped: the
  result is linear in it, negative for a negative insolation and above \<open>Iscr\<close> for
  an insolation above 100.
\<close>

theorem Iph_calc_formula:
  "Iph_calc self = (Iscr + Kv * (Tactual self - T0)) * (Sinsol self / 100)
   \<and> Iph_calc (self\<lparr>Sinsol := 100, Tactual := T0\<rparr>) = Iscr
   \<and> Iph_calc (self\<lparr>Sinsol := 100, Tactual := 298.15\<rparr>) = 8.03
   \<and> Iph_calc (self\<lparr>Sinsol := c * S\<rparr>) = c * Iph_calc (self\<lparr>Sinsol := S\<rparr>)
   \<and> Iph_calc (self\<lparr>Sinsol := - 50, Tactual := T0\<rparr>) = - (Iscr / 2)
   \<and> Iph_calc (self\<lparr>Sinsol := 250, Tactual := T0\<rparr>) = 5 * Iscr / 2"
  by (simp add: Iph_calc_def T0_def Iscr_def)

subsection \<open>C7: the panel power\<close>

text \<open>
  C7. The claim: for every DC voltage, insolation and temperature, \<^verbatim>\<open>Ppv_calc\<close>
  returns \<open>max(0, Ipv * Vdc) / Sbase\<close>, so the result is never negative and is 0 at
  voltage 0, for any insolation and temperature.

  The call does not return for every voltage and temperature. For the 10 kVA module at
  298.15 K and a voltage of 100000 the exponent is about 2028, beyond the range of
  \<^verbatim>\<open>math.exp\<close>, which raises \<^verbatim>\<open>OverflowError\<close>. At temperature 0 and
  voltage 0, both Python numbers, the exponent divides by zero and the call raises
  \<^verbatim>\<open>ZeroDivisionError\<close>.
\<close>

theorem Ppv_calc_out_of_range_raises:
  "Ppv_calc 50000 Python_number 100000
     \<lparr>Np = 2, Ns = 1000, Vdcmpp0 = 750, Vdcmpp_min = 650, Vdcmpp_max = 800,
      Sinsol = 100, Tactual = 298.15, Iph = None, Ipv = None, z = None, MPP_fit_points = 50,
      Sinsol_class = Python_number, Tactual_class = Python_number\<rparr>
   = Inl OverflowError
   \<and> Ppv_calc 50000 Python_number 0
     \<lparr>Np = 2, Ns = 1000, Vdcmpp0 = 750, Vdcmpp_min = 650, Vdcmpp_max = 800,
      Sinsol = 100, Tactual = 0, Iph = None, Ipv = None, z = None, MPP_fit_points = 50,
      Sinsol_class = Python_number, Tactual_class = Python_number\<rparr>
   = Inl ZeroDivisionError"
  by (simp add: Ppv_calc_def Let_def exponent_def exponent_divisor_def rounds_to_zero_def
        xtruediv_def bind_error_def join_class_def exp_max_def float_overflow_def
        PVModule_k_def PVModule_A_def PVModule_q_def)

text \<open>
  C7, as the code has it. When the divisor \<^verbatim>\<open>k*Tactual*A*Ns\<close> of the exponent is
  not zero, the exponent is within the range of \<^verbatim>\<open>math.exp\<close> (at most
  \<open>exp_max\<close>, about 709.78) and \<^verbatim>\<open>Sbase\<close> is positive, \<^verbatim>\<open>Ppv_calc\<close>
  returns \<open>max(0, Ipv * Vdc) / Sbase\<close>, where \<open>Ipv\<close> is the panel current of the
  single-diode model at that voltage (which it stores, with the photocurrent); the
  result is not negative. At voltage 0 it returns 0 whenever the divisor is not zero and
  \<^verbatim>\<open>Sbase\<close> is positive, for any insolation; it also returns 0 there when the
  divisor is zero and one of the voltage and the temperature is a numpy scalar. The call
  raises \<^verbatim>\<open>OverflowError\<close> when the exponent is finite and above \<open>exp_max\<close>,
  and \<^verbatim>\<open>ZeroDivisionError\<close> when the divisor is zero and the voltage and the
  temperature are Python numbers.
\<close>

theorem Ppv_calc_formula:
  "(exponent_divisor self \<noteq> 0
      \<and> PVModule_q * V / (PVModule_k * Tactual self * PVModule_A * Ns self) \<le> exp_max
      \<and> 0 < Sbase' \<longrightarrow>
        Ppv_calc Sbase' c V self =
          Inr (Fin (max 0 (Ipv_at self V * V) / Sbase'),
               self\<lparr>Iph := Some (Iph_calc self), Ipv := Some (Fin (Ipv_at self V))\<rparr>)
        \<and> Ipv_at self V =
            Np self * ((Iscr + Kv * (Tactual self - T0)) * (Sinsol self / 100))
            - Np self * Irs *
                (exp (PVModule_q * V / (PVModule_k * Tactual self * PVModule_A * Ns self)) - 1)
        \<and> 0 \<le> max 0 (Ipv_at self V * V) / Sbase')
   \<and> (exponent_divisor self \<noteq> 0 \<and> 0 < Sbase' \<longrightarrow>
        Ppv_calc Sbase' c 0 self =
          Inr (Fin 0,
               self\<lparr>Iph := Some (Iph_calc self), Ipv := Some (Fin (Np self * Iph_calc self))\<rparr>))
   \<and> (exponent_divisor self = 0 \<and> join_class c (Tactual_class self) = Numpy_scalar
      \<and> 0 < Sbase' \<longrightarrow>
        Ppv_calc Sbase' c 0 self =
          Inr (Fin 0, self\<lparr>Iph := Some (Iph_calc self), Ipv := Some NaN\<rparr>))
   \<and> (exponent_divisor self \<noteq> 0
      \<and> exp_max < PVModule_q * V / (PVModule_k * Tactual self * PVModule_A * Ns self)
      \<and> PVModule_q * V / (PVModule_k * Tactual self * PVModule_A * Ns self) < float_overflow
      \<longrightarrow> Ppv_calc Sbase' c V self = Inl OverflowError)
   \<and> (exponent_divisor self = 0 \<and> c = Python_number \<and> Tactual_class self = Python_number
      \<longrightarrow> Ppv_calc Sbase' c V self = Inl ZeroDivisionError)"
proof (intro conjI impI; (elim conjE)?)
  assume d: "exponent_divisor self \<noteq> 0"
    and x: "PVModule_q * V / (PVModule_k * Tactual self * PVModule_A * Ns self) \<le> exp_max"
    and s: "0 < Sbase'"
  from x have x': "PVModule_q * V / exponent_divisor self \<le> exp_max"
    using exponent_divisor_nonzero[OF d] by simp
  from s have s': "Sbase' \<noteq> 0" by simp
  show "Ppv_calc Sbase' c V self =
          Inr (Fin (max 0 (Ipv_at self V * V) / Sbase'),
               self\<lparr>Iph := Some (Iph_calc self), Ipv := Some (Fin (Ipv_at self V))\<rparr>)"
    by (rule Ppv_calc_returns[OF d x' s'])
  show "Ipv_at self V =
            Np self * ((Iscr + Kv * (Tactual self - T0)) * (Sinsol self / 100))
            - Np self * Irs *
                (exp (PVModule_q * V / (PVModule_k * Tactual self * PVModule_A * Ns self)) - 1)"
    by (simp add: Ipv_at_def Iph_calc_def)
  show "0 \<le> max 0 (Ipv_at self V * V) / Sbase'"
    using s by simp
next
  assume d: "exponent_divisor self \<noteq> 0" and s: "0 < Sbase'"
  have e: "(0::real) \<le> exp_max" by (simp add: exp_max_def)
  from s have s': "Sbase' \<noteq> 0" by simp
  have "Ipv_at self 0 = Np self * Iph_calc self"
    by (simp add: Ipv_at_def)
  then show "Ppv_calc Sbase' c 0 self =
          Inr (Fin 0,
               self\<lparr>Iph := Some (Iph_calc self), Ipv := Some (Fin (Np self * Iph_calc self))\<rparr>)"
    using Ppv_calc_returns[OF d _ s', of 0 c] e by simp
next
  assume "exponent_divisor self = 0" "join_class c (Tactual_class self) = Numpy_scalar"
    "0 < Sbase'"
  then show "Ppv_calc Sbase' c 0 self =
          Inr (Fin 0, self\<lparr>Iph := Some (Iph_calc self), Ipv := Some NaN\<rparr>)"
    by (intro Ppv_calc_numpy_zero_divisor_at_zero) simp_all
next
  assume d: "exponent_divisor self \<noteq> 0"
    and "exp_max < PVModule_q * V / (PVModule_k * Tactual self * PVModule_A * Ns self)"
    and "PVModule_q * V / (PVModule_k * Tactual self * PVModule_A * Ns self) < float_overflow"
  then show "Ppv_calc Sbase' c V self = Inl OverflowError"
    using exponent_divisor_nonzero[OF d] by (intro Ppv_calc_overflow) simp_all
next
  assume "exponent_divisor self = 0" "c = Python_number" "Tactual_class self = Python_number"
  then show "Ppv_calc Sbase' c V self = Inl ZeroDivisionError"
    by (rule Ppv_calc_zero_division)
qed

theorem Ppv_calc_formula_witness:
  "Ppv_calc 50000 Python_number 0
     \<lparr>Np = 2, Ns = 1000, Vdcmpp0 = 750, Vdcmpp_min = 650, Vdcmpp_max = 800,
      Sinsol = 100, Tactual = 298.15, Iph = None, Ipv = None, z = None, MPP_fit_points = 50,
      Sinsol_class = Python_number, Tactual_class = Python_number\<rparr>
   = Inr (Fin 0,
     \<lparr>Np = 2, Ns = 1000, Vdcmpp0 = 750, Vdcmpp_min = 650, Vdcmpp_max = 800,
      Sinsol = 100, Tactual = 298.15, Iph = Some 8.03, Ipv = Some (Fin 16.06), z = None,
      MPP_fit_points = 50, Sinsol_class = Python_number, Tactual_class = Python_number\<rparr>)
   \<and> Ppv_calc 50000 Numpy_scalar 0
     \<lparr>Np = 2, Ns = 1000, Vdcmpp0 = 750, Vdcmpp_min = 650, Vdcmpp_max = 800,
      Sinsol = 100, Tactual = 0, Iph = None, Ipv = None, z = None, MPP_fit_points = 50,
      Sinsol_class = Python_number, Tactual_class = Python_number\<rparr>
   = Inr (Fin 0,
     \<lparr>Np = 2, Ns = 1000, Vdcmpp0 = 750, Vdcmpp_min = 650, Vdcmpp_max = 800,
      Sinsol = 100, Tactual = 0, Iph = Some (8.03 - 0.0017 * 298.15), Ipv = Some NaN, z = None,
      MPP_fit_points = 50, Sinsol_class = Python_number, Tactual_class = Python_number\<rparr>)
   \<and> Ppv_calc 50000 Numpy_scalar 20000
     \<lparr>Np = 2, Ns = 20, Vdcmpp0 = 750, Vdcmpp_min = 650, Vdcmpp_max = 800,
      Sinsol = 100, Tactual = 298.15, Iph = None, Ipv = None, z = None, MPP_fit_points = 50,
      Sinsol_class = Python_number, Tactual_class = Python_number\<rparr>
   = Inl OverflowError"
proof -
  let ?warm = "\<lparr>Np = 2, Ns = 1000, Vdcmpp0 = 750, Vdcmpp_min = 650, Vdcmpp_max = 800,
      Sinsol = 100, Tactual = 298.15, Iph = None, Ipv = None, z = None, MPP_fit_points = 50,
      Sinsol_class = Python_number, Tactual_class = Python_number\<rparr>"
  let ?cold = "\<lparr>Np = 2, Ns = 1000, Vdcmpp0 = 750, Vdcmpp_min = 650, Vdcmpp_max = 800,
      Sinsol = 100, Tactual = 0, Iph = None, Ipv = None, z = None, MPP_fit_points = 50,
      Sinsol_class = Python_number, Tactual_class = Python_number\<rparr>"
  let ?hot = "\<lparr>Np = 2, Ns = 20, Vdcmpp0 = 750, Vdcmpp_min = 650, Vdcmpp_max = 800,
      Sinsol = 100, Tactual = 298.15, Iph = None, Ipv = None, z = None, MPP_fit_points = 50,
      Sinsol_class = Python_number, Tactual_class = Python_number\<rparr>"
  have a: "exponent_divisor ?warm \<noteq> 0" "exponent_divisor ?cold = 0" "exponent_divisor ?hot \<noteq> 0"
    by (simp_all add: exponent_divisor_def rounds_to_zero_def PVModule_k_def PVModule_A_def)
  have b: "exp_max < PVModule_q * 20000 / (PVModule_k * Tactual ?hot * PVModule_A * Ns ?hot)"
    "PVModule_q * 20000 / (PVModule_k * Tactual ?hot * PVModule_A * Ns ?hot) < float_overflow"
    by (simp_all add: exp_max_def float_overflow_def PVModule_k_def PVModule_A_def
          PVModule_q_def)
  from Ppv_calc_formula[of ?warm 0 50000 Python_number]
       Ppv_calc_formula[of ?cold 0 50000 Numpy_scalar]
       Ppv_calc_formula[of ?hot 20000 50000 Numpy_scalar] a b
  show ?thesis
    by (simp add: Iph_calc_def Iscr_def Kv_def T0_def join_class_def)
qed

subsection \<open>C9: a device without module parameters\<close>

text \<open>
  C9. The claim: for every device ID that is not in the module parameter table,
  the construction of the PV module fails with the error that names the ID.

  The first line of the constructor, a debug message, reads
  \<^verbatim>\<open>self.DER_config['inverter_ratings']['Srated']\<close> before the lookup. For the
  ID 7, which the table does not list, and a configuration without the section
  \<^verbatim>\<open>inverter_ratings\<close>, the construction fails with
  \<^verbatim>\<open>KeyError('inverter_ratings')\<close>, not with the error of the lookup.
\<close>

theorem PVModule_init_fails_before_lookup:
  "''7'' \<notin> set (map fst module_parameters_listed)
   \<and> PVModule_init
       \<lparr>fsolve = \<lambda>f x0. x0, polyfit = \<lambda>x y deg. replicate (deg + 1) 0, Sbase = 50000,
        defaults_Tactual = 298.15, logger_callable = True\<rparr>
       \<lparr>name = ''PVDER_1'', parameter_ID = ''7'', DER_model_type = ''SolarPV_DER_ThreePhase'',
        DER_config = []\<rparr>
       module_parameters_listed True Python_number 100
     = Inl (KeyError (Missing_key ''inverter_ratings''))"
  by (simp add: module_parameters_listed_def PVModule_init_def creating_message_def
        bind_error_def getitem_def)

text \<open>
  C9, as the code has it. When the parameter ID of the host is not a key of the module
  parameter table, \<^verbatim>\<open>initialize_module_parameters\<close> raises the error that names
  the ID (a \<^verbatim>\<open>ValueError\<close> in the source), and the constructor never returns an
  instance, whatever its other inputs are. The constructor fails with that very error
  when the arguments of its first log line can be evaluated; when they cannot (a key
  is missing, the rating is not a number, or it is an integer too large for a float),
  it fails with the error of that line, before the lookup.
\<close>

theorem PVModule_init_parameters_not_available:
  assumes "parameter_ID host \<notin> set (map fst module_parameters)"
  shows "initialize_module_parameters module_parameters (parameter_ID host) =
           Inl (ValueError (Module_parameters_not_available (parameter_ID host)))
       \<and> (\<forall>e MPPT_ENABLE c S self.
             PVModule_init e host module_parameters MPPT_ENABLE c S \<noteq> Inr self)
       \<and> (\<forall>e MPPT_ENABLE c S r. creating_message host = Inr r \<longrightarrow>
             PVModule_init e host module_parameters MPPT_ENABLE c S =
               Inl (ValueError (Module_parameters_not_available (parameter_ID host))))
       \<and> (\<forall>e MPPT_ENABLE c S err. creating_message host = Inl err \<longrightarrow>
             PVModule_init e host module_parameters MPPT_ENABLE c S = Inl err)"
proof -
  from assms have n: "map_of module_parameters (parameter_ID host) = None"
    by (simp add: map_of_eq_None_iff)
  then have i: "initialize_module_parameters module_parameters (parameter_ID host) =
           Inl (ValueError (Module_parameters_not_available (parameter_ID host)))"
    by (simp add: initialize_module_parameters_def)
  then show ?thesis
    by (auto simp: PVModule_init_def bind_error_def split: sum.splits)
qed

theorem PVModule_init_parameters_not_available_witness:
  "initialize_module_parameters module_parameters_listed ''7'' =
     Inl (ValueError (Module_parameters_not_available ''7''))
   \<and> PVModule_init
       \<lparr>fsolve = \<lambda>f x0. x0, polyfit = \<lambda>x y deg. replicate (deg + 1) 0, Sbase = 50000,
        defaults_Tactual = 298.15, logger_callable = True\<rparr>
       (host_50\<lparr>parameter_ID := ''7''\<rparr>) module_parameters_listed True Python_number 100
     = Inl (ValueError (Module_parameters_not_available ''7''))
   \<and> PVModule_init
       \<lparr>fsolve = \<lambda>f x0. x0, polyfit = \<lambda>x y deg. replicate (deg + 1) 0, Sbase = 50000,
        defaults_Tactual = 298.15, logger_callable = True\<rparr>
       (host_50\<lparr>parameter_ID := ''7'',
                DER_config := [(''inverter_ratings'', VDict [(''Srated'', VInt (10 ^ 309))])]\<rparr>)
       module_parameters_listed True Python_number 100
     = Inl OverflowError"
proof -
  have a: "parameter_ID (host_50\<lparr>parameter_ID := ''7''\<rparr>) \<notin> set (map fst module_parameters_listed)"
    "parameter_ID (host_50\<lparr>parameter_ID := ''7'',
                DER_config := [(''inverter_ratings'', VDict [(''Srated'', VInt (10 ^ 309))])]\<rparr>)
       \<notin> set (map fst module_parameters_listed)"
    by (simp_all add: module_parameters_listed_def)
  have b: "creating_message (host_50\<lparr>parameter_ID := ''7''\<rparr>) = Inr 50"
    by (simp add: creating_message_def host_50_def bind_error_def getitem_def float_overflow_def)
  have c: "creating_message (host_50\<lparr>parameter_ID := ''7'',
                DER_config := [(''inverter_ratings'', VDict [(''Srated'', VInt (10 ^ 309))])]\<rparr>)
           = Inl OverflowError"
    by (simp add: creating_message_def host_50_def bind_error_def getitem_def float_overflow_def)
  from PVModule_init_parameters_not_available[OF a(1)]
       PVModule_init_parameters_not_available[OF a(2)] b c
  show ?thesis by simp
qed

subsection \<open>C4: the samples and the polynomial of the fit\<close>




subsection \<open>C10: the temperature after the fit\<close>

lemma PVModule_init_Inr:
  assumes "PVModule_init e host module_parameters True c S = Inr self'"
  shows "\<exists>p s1. map_of module_parameters (parameter_ID host) = Some p
      \<and> fit_MPP_poly e
           \<lparr>Np = Np p, Ns = Ns p, Vdcmpp0 = Vdcmpp0 p, Vdcmpp_min = Vdcmpp_min p,
            Vdcmpp_max = Vdcmpp_max p, Sinsol = S, Tactual = defaults_Tactual e,
            Iph = None, Ipv = None, z = None, MPP_fit_points = MPP_fit_points_class,
            Sinsol_class = c, Tactual_class = Python_number\<rparr> = Inr s1
      \<and> self' = s1\<lparr>Iph := Some (Iph_calc s1)\<rparr>"
  using assms
  by (auto simp: PVModule_init_def bind_error_def initialize_module_parameters_def
        USE_POLYNOMIAL_MPP_def Let_def split: sum.splits option.splits)

lemma PVModule_init_with_fit:
  assumes "creating_message host = Inr r"
    and "map_of module_parameters (parameter_ID host) = Some p"
    and "fit_MPP_poly e
           \<lparr>Np = Np p, Ns = Ns p, Vdcmpp0 = Vdcmpp0 p, Vdcmpp_min = Vdcmpp_min p,
            Vdcmpp_max = Vdcmpp_max p, Sinsol = S, Tactual = defaults_Tactual e,
            Iph = None, Ipv = None, z = None, MPP_fit_points = MPP_fit_points_class,
            Sinsol_class = c, Tactual_class = Python_number\<rparr>
         = Inr self'"
  shows "PVModule_init e host module_parameters True c S =
           Inr (self'\<lparr>Iph := Some (Iph_calc self')\<rparr>)"
  using assms
  by (simp add: PVModule_init_def bind_error_def initialize_module_parameters_def
        USE_POLYNOMIAL_MPP_def Let_def)

text \<open>
  C10. Running the fit overwrites the cell temperature of the module. When
  \<^verbatim>\<open>fit_MPP_poly\<close> returns, \<^verbatim>\<open>Tactual\<close> is 298.15 whatever it was before.
  It is not restored: the photocurrent of the returned instance is computed at
  298.15 K; \<^verbatim>\<open>Vdcmpp\<close> leaves the temperature at 298.15 K; a call of
  \<^verbatim>\<open>Ppv_calc\<close> that returns leaves it at 298.15 K, and for a finite exponent
  the panel current it stores is the one at 298.15 K. The same holds for the instance
  that the constructor returns when the polynomial option is on, whatever
  \<^verbatim>\<open>defaults.Tactual\<close> is. The fit returns when the logger object can be
  called, \<^verbatim>\<open>Sbase\<close> and the divisor of the exponent are not zero, the exponent at
  the MPP voltage of each sample is within the range of \<^verbatim>\<open>math.exp\<close> and
  \<^verbatim>\<open>polyfit\<close> gives at least four coefficients.
\<close>

theorem fit_MPP_poly_overwrites_Tactual:
  "(\<forall>self'. fit_MPP_poly e self = Inr self' \<longrightarrow>
        Tactual self' = 298.15
      \<and> Iph_calc self' = (Iscr + Kv * (298.15 - T0)) * (Sinsol self' / 100)
      \<and> Tactual (snd (Vdcmpp e self')) = 298.15
      \<and> (\<forall>b c V P s. Ppv_calc b c V self' = Inr (P, s) \<longrightarrow> Tactual s = 298.15)
      \<and> (\<forall>b c V. exponent_divisor self' \<noteq> 0
            \<and> PVModule_q * V / (PVModule_k * 298.15 * PVModule_A * Ns self') \<le> exp_max
            \<and> b \<noteq> 0 \<longrightarrow>
            (\<exists>P s. Ppv_calc b c V self' = Inr (P, s)
               \<and> Ipv s = Some (Fin (Np self' * Iph_calc self'
                    - Np self' * Irs *
                        (exp (PVModule_q * V
                              / (PVModule_k * 298.15 * PVModule_A * Ns self')) - 1))))))
   \<and> (\<forall>self'. PVModule_init e host module_parameters True c' S = Inr self' \<longrightarrow>
        Tactual self' = 298.15
      \<and> Iph self' = Some ((Iscr + Kv * (298.15 - T0)) * (Sinsol self' / 100)))
   \<and> (logger_callable e \<and> Sbase e \<noteq> 0
       \<and> exponent_divisor (self\<lparr>Tactual := 298.15\<rparr>) \<noteq> 0
       \<and> (\<forall>S\<in>set [10, 19, 28, 37, 46, 55, 64, 73, 82, 91, 100].
             PVModule_q * Vdcmpp_at e (self\<lparr>Tactual := 298.15\<rparr>) S
               / exponent_divisor (self\<lparr>Tactual := 298.15\<rparr>) \<le> exp_max)
       \<and> (\<forall>x y. 4 \<le> length (polyfit e x y 3))
       \<longrightarrow> (\<exists>self'. fit_MPP_poly e self = Inr self'))"
proof (intro conjI allI impI)
  fix self'
  assume r: "fit_MPP_poly e self = Inr self'"
  from fit_MPP_poly_Inr[OF r] obtain s2 where
    s: "self' = s2\<lparr>z := Some (polyfit e [10, 19, 28, 37, 46, 55, 64, 73, 82, 91, 100]
                  (map (Vdcmpp_at e (self\<lparr>Tactual := 298.15\<rparr>))
                     [10, 19, 28, 37, 46, 55, 64, 73, 82, 91, 100]) 3)\<rparr>"
    and f: "Tactual s2 = 298.15"
    by blast
  show t: "Tactual self' = 298.15"
    by (simp add: s f)
  show "Iph_calc self' = (Iscr + Kv * (298.15 - T0)) * (Sinsol self' / 100)"
    using t by (simp add: Iph_calc_def)
  show "Tactual (snd (Vdcmpp e self')) = 298.15"
    using t by (simp add: Vdcmpp_snd)
  show "Tactual s = 298.15" if "Ppv_calc b c V self' = Inr (P, s)" for b c V P s
    using Ppv_calc_state[OF that] t by auto
  show "\<exists>P s. Ppv_calc b c V self' = Inr (P, s)
               \<and> Ipv s = Some (Fin (Np self' * Iph_calc self'
                    - Np self' * Irs *
                        (exp (PVModule_q * V
                              / (PVModule_k * 298.15 * PVModule_A * Ns self')) - 1)))"
    if a: "exponent_divisor self' \<noteq> 0
            \<and> PVModule_q * V / (PVModule_k * 298.15 * PVModule_A * Ns self') \<le> exp_max
            \<and> b \<noteq> 0" for b c V
  proof -
    from a have d: "exponent_divisor self' \<noteq> 0" and b: "b \<noteq> 0" by simp_all
    have dv: "exponent_divisor self' = PVModule_k * 298.15 * PVModule_A * Ns self'"
      unfolding exponent_divisor_nonzero[OF d] t ..
    from a have x: "PVModule_q * V / exponent_divisor self' \<le> exp_max"
      unfolding dv by blast
    have ip: "Ipv_at self' V = Np self' * Iph_calc self'
                    - Np self' * Irs *
                        (exp (PVModule_q * V
                              / (PVModule_k * 298.15 * PVModule_A * Ns self')) - 1)"
      unfolding Ipv_at_def t ..
    show ?thesis
      unfolding Ppv_calc_returns[OF d x b, of c] ip[symmetric] by simp
  qed
next
  fix self'
  assume i: "PVModule_init e host module_parameters True c' S = Inr self'"
  from PVModule_init_Inr[OF i] obtain p s1 where
    "map_of module_parameters (parameter_ID host) = Some p"
    and r: "fit_MPP_poly e
           \<lparr>Np = Np p, Ns = Ns p, Vdcmpp0 = Vdcmpp0 p, Vdcmpp_min = Vdcmpp_min p,
            Vdcmpp_max = Vdcmpp_max p, Sinsol = S, Tactual = defaults_Tactual e,
            Iph = None, Ipv = None, z = None, MPP_fit_points = MPP_fit_points_class,
            Sinsol_class = c', Tactual_class = Python_number\<rparr> = Inr s1"
    and s: "self' = s1\<lparr>Iph := Some (Iph_calc s1)\<rparr>"
    by blast
  from fit_MPP_poly_Inr[OF r] have t: "Tactual s1 = 298.15"
    by auto
  show "Tactual self' = 298.15"
    by (simp add: s t)
  show "Iph self' = Some ((Iscr + Kv * (298.15 - T0)) * (Sinsol self' / 100))"
    using t by (simp add: s Iph_calc_def)
next
  assume a: "logger_callable e \<and> Sbase e \<noteq> 0
       \<and> exponent_divisor (self\<lparr>Tactual := 298.15\<rparr>) \<noteq> 0
       \<and> (\<forall>S\<in>set [10, 19, 28, 37, 46, 55, 64, 73, 82, 91, 100].
             PVModule_q * Vdcmpp_at e (self\<lparr>Tactual := 298.15\<rparr>) S
               / exponent_divisor (self\<lparr>Tactual := 298.15\<rparr>) \<le> exp_max)
       \<and> (\<forall>x y. 4 \<le> length (polyfit e x y 3))"
  show "\<exists>self'. fit_MPP_poly e self = Inr self'"
    apply (rule fit_MPP_poly_returns)
    using a apply blast
    using a apply blast
    using a apply blast
    using a apply blast
    using a apply blast
    done
qed

theorem fit_MPP_poly_overwrites_Tactual_witness:
  "(\<exists>self'.
      fit_MPP_poly
        \<lparr>fsolve = \<lambda>f x0. x0, polyfit = \<lambda>x y deg. replicate (deg + 1) 0, Sbase = 50000,
         defaults_Tactual = 320, logger_callable = True\<rparr>
        \<lparr>Np = 11, Ns = 735, Vdcmpp0 = 550, Vdcmpp_min = 520, Vdcmpp_max = 650,
         Sinsol = 50, Tactual = 320, Iph = None, Ipv = None, z = None,
         MPP_fit_points = 50, Sinsol_class = Python_number, Tactual_class = Python_number\<rparr>
        = Inr self'
      \<and> Tactual self' = 298.15)
   \<and> (\<exists>self'.
      PVModule_init
        \<lparr>fsolve = \<lambda>f x0. x0, polyfit = \<lambda>x y deg. replicate (deg + 1) 0, Sbase = 50000,
         defaults_Tactual = 320, logger_callable = True\<rparr>
        host_50 module_parameters_listed True Python_number 50
        = Inr self'
      \<and> Tactual self' = 298.15)"
proof -
  let ?e = "\<lparr>fsolve = \<lambda>f x0. x0, polyfit = \<lambda>x y deg. replicate (deg + 1) (0::real),
             Sbase = 50000, defaults_Tactual = 320, logger_callable = True\<rparr>"
  let ?self = "\<lparr>Np = 11, Ns = 735, Vdcmpp0 = 550, Vdcmpp_min = 520, Vdcmpp_max = 650,
         Sinsol = 50, Tactual = 320, Iph = None, Ipv = None, z = None,
         MPP_fit_points = 50, Sinsol_class = Python_number, Tactual_class = Python_number\<rparr>"
  note t = fit_MPP_poly_overwrites_Tactual[of ?e ?self host_50 module_parameters_listed
             Python_number 50]
  have d: "exponent_divisor (?self\<lparr>Tactual := 298.15\<rparr>) =
             PVModule_k * 298.15 * PVModule_A * 735"
    by (simp add: exponent_divisor_def rounds_to_zero_def PVModule_k_def PVModule_A_def)
  have "logger_callable ?e \<and> Sbase ?e \<noteq> 0
       \<and> exponent_divisor (?self\<lparr>Tactual := 298.15\<rparr>) \<noteq> 0
       \<and> (\<forall>S\<in>set [10, 19, 28, 37, 46, 55, 64, 73, 82, 91, 100].
             PVModule_q * Vdcmpp_at ?e (?self\<lparr>Tactual := 298.15\<rparr>) S
               / exponent_divisor (?self\<lparr>Tactual := 298.15\<rparr>) \<le> exp_max)
       \<and> (\<forall>x y. 4 \<le> length (polyfit ?e x y 3))"
    unfolding d
    by (simp add: Vdcmpp_at_def Vdcmpp_def Let_def exp_max_def PVModule_k_def PVModule_A_def
          PVModule_q_def)
  with t obtain s1 where r: "fit_MPP_poly ?e ?self = Inr s1"
    by blast
  with t have t1: "Tactual s1 = 298.15"
    by blast
  have m: "creating_message host_50 = Inr 50"
    "map_of module_parameters_listed (parameter_ID host_50) =
       Some \<lparr>Np = 11, Ns = 735, Vdcmpp0 = 550.0, Vdcmpp_min = 520.0, Vdcmpp_max = 650.0\<rparr>"
    by (simp_all add: creating_message_def host_50_def bind_error_def getitem_def
          module_parameters_listed_def)
  have "PVModule_init ?e host_50 module_parameters_listed True Python_number 50 =
          Inr (s1\<lparr>Iph := Some (Iph_calc s1)\<rparr>)"
    using r by (intro PVModule_init_with_fit[OF m]) (simp add: MPP_fit_points_class_def)
  with t have "\<exists>self'. PVModule_init ?e host_50 module_parameters_listed True Python_number 50
        = Inr self' \<and> Tactual self' = 298.15"
    by blast
  with r t1 show ?thesis
    by blast
qed

end
